theory Spec2Isabelle
  imports Complex_Main "HOL-Library.Sublist"
begin

section \<open>JavaScript values\<close>

text \<open>
  A number is an IEEE 754 double: \<open>Fin q\<close> carries the value of a finite one, and every
  operation below rounds its exact result to the nearest double. The sign of zero is left
  out: \<open>-0 === 0\<close> holds and both are falsy, so no comparison of the program tells them
  apart. \<open>NaN\<close> is a value of its own, and the comparisons treat it as JavaScript does.
\<close>

datatype jsnum = NaN | PosInf | NegInf | Fin rat

datatype jsval =
    JUndefined
  | JNull
  | JBool bool
  | JNum jsnum
  | JStr string
  | JArr "jsval list"
  | JObj "(string \<times> jsval) list"

text \<open>\<open>!!v\<close>: the falsy values are undefined, null, false, 0, NaN and the empty string.\<close>

fun truthy :: "jsval \<Rightarrow> bool" where
  "truthy JUndefined = False"
| "truthy JNull = False"
| "truthy (JBool b) = b"
| "truthy (JNum n) = (n \<noteq> NaN \<and> n \<noteq> Fin 0)"
| "truthy (JStr s) = (s \<noteq> [])"
| "truthy (JArr _) = True"
| "truthy (JObj _) = True"

text \<open>\<open>a === b\<close> on numbers: NaN equals nothing, itself included.\<close>

definition num_eq :: "jsnum \<Rightarrow> jsnum \<Rightarrow> bool" where
  "num_eq a b \<longleftrightarrow> a \<noteq> NaN \<and> b \<noteq> NaN \<and> a = b"

text \<open>
  \<open>a === b\<close>. The program compares only against primitives (a string literal,
  \<open>undefined\<close>, \<open>true\<close>, \<open>false\<close>, a stored number or string), so the comparison of two
  objects by reference never arises: an array or an object equals no primitive.
\<close>

fun strict_eq :: "jsval \<Rightarrow> jsval \<Rightarrow> bool" where
  "strict_eq JUndefined b = (b = JUndefined)"
| "strict_eq JNull b = (b = JNull)"
| "strict_eq (JBool x) b = (b = JBool x)"
| "strict_eq (JNum x) b = (case b of JNum y \<Rightarrow> num_eq x y | _ \<Rightarrow> False)"
| "strict_eq (JStr x) b = (b = JStr x)"
| "strict_eq (JArr _) b = False"
| "strict_eq (JObj _) b = False"

text \<open>
  Property access \<open>v.k\<close> on a value other than \<open>undefined\<close> and \<open>null\<close>: an object yields
  its own property of that name, anything else \<open>undefined\<close>. On \<open>undefined\<close> and \<open>null\<close>
  JavaScript throws; the callers below rule these two out before they read a property.
\<close>

fun get_prop :: "jsval \<Rightarrow> string \<Rightarrow> jsval" where
  "get_prop (JObj kvs) k = (case map_of kvs k of None \<Rightarrow> JUndefined | Some v \<Rightarrow> v)"
| "get_prop _ k = JUndefined"

text \<open>\<open>v || {}\<close>\<close>

definition or_empty :: "jsval \<Rightarrow> jsval" where
  "or_empty v = (if truthy v then v else JObj [])"

subsection \<open>Rounding to a double\<close>

text \<open>The number of binary digits of a positive integer.\<close>

function bit_length :: "int \<Rightarrow> int" where
  "bit_length n = (if n \<le> 0 then 0 else 1 + bit_length (n div 2))"
  by pat_completeness auto
termination
  by (relation "measure nat") auto

declare bit_length.simps [simp del]

text \<open>\<open>b ^ e\<close> for an exponent \<open>0 \<le> e\<close>, by repeated squaring.\<close>

function ipow :: "rat \<Rightarrow> int \<Rightarrow> rat" where
  "ipow b e =
     (if e \<le> 0 then 1
      else if even e then ipow (b * b) (e div 2)
      else b * ipow (b * b) (e div 2))"
  by pat_completeness auto
termination
  by (relation "measure (\<lambda>(b, e). nat e)") auto

declare ipow.simps [simp del]

definition pow2 :: "int \<Rightarrow> rat" where
  "pow2 e = (if 0 \<le> e then ipow 2 e else 1 / ipow 2 (- e))"

text \<open>For \<open>0 < q\<close>, the exponent \<open>k\<close> with \<open>2 ^ k \<le> q < 2 ^ (k + 1)\<close>.\<close>

definition floor_log2 :: "rat \<Rightarrow> int" where
  "floor_log2 q = (if 1 \<le> q then bit_length \<lfloor>q\<rfloor> - 1 else - bit_length (\<lceil>1 / q\<rceil> - 1))"

definition round_half_even :: "rat \<Rightarrow> int" where
  "round_half_even x =
     (let f = \<lfloor>x\<rfloor>; r = x - of_int f
      in if r < 1 / 2 then f
         else if 1 / 2 < r then f + 1
         else if even f then f else f + 1)"

text \<open>
  The double nearest to \<open>0 < q\<close>, ties to the even significand: a significand \<open>m\<close> of at
  most 53 bits and an exponent \<open>e\<close>, the least one \<open>-1074\<close> for the subnormal numbers, and
  \<open>Infinity\<close> once \<open>m * 2 ^ e\<close> reaches \<open>2 ^ 1024\<close>.
\<close>

definition dbl_pos :: "rat \<Rightarrow> jsnum" where
  "dbl_pos q =
     (let e = max (floor_log2 q - 52) (- 1074);
          m = round_half_even (q / pow2 e)
      in if 971 < e \<or> (e = 971 \<and> 2 ^ 53 \<le> m) then PosInf else Fin (of_int m * pow2 e))"

definition negate :: "jsnum \<Rightarrow> jsnum" where
  "negate n = (case n of NaN \<Rightarrow> NaN | PosInf \<Rightarrow> NegInf | NegInf \<Rightarrow> PosInf | Fin q \<Rightarrow> Fin (- q))"

definition dbl :: "rat \<Rightarrow> jsnum" where
  "dbl q = (if q = 0 then Fin 0 else if 0 < q then dbl_pos q else negate (dbl_pos (- q)))"

subsection \<open>Arithmetic\<close>

definition sign_of :: "jsnum \<Rightarrow> int" where
  "sign_of n =
     (case n of
        NaN \<Rightarrow> 0
      | PosInf \<Rightarrow> 1
      | NegInf \<Rightarrow> - 1
      | Fin q \<Rightarrow> if q = 0 then 0 else if 0 < q then 1 else - 1)"

text \<open>\<open>a * b\<close>\<close>

definition js_times :: "jsnum \<Rightarrow> jsnum \<Rightarrow> jsnum" where
  "js_times a b =
     (if a = NaN \<or> b = NaN then NaN
      else (case (a, b) of
              (Fin x, Fin y) \<Rightarrow> dbl (x * y)
            | _ \<Rightarrow> if sign_of a * sign_of b = 0 then NaN
                   else if 0 < sign_of a * sign_of b then PosInf else NegInf))"

text \<open>\<open>a + b\<close> on numbers\<close>

definition js_plus :: "jsnum \<Rightarrow> jsnum \<Rightarrow> jsnum" where
  "js_plus a b =
     (if a = NaN \<or> b = NaN then NaN
      else (case (a, b) of
              (Fin x, Fin y) \<Rightarrow> dbl (x + y)
            | (Fin x, _) \<Rightarrow> b
            | (_, Fin y) \<Rightarrow> a
            | _ \<Rightarrow> if a = b then a else NaN))"

text \<open>\<open>Math.floor(a)\<close>\<close>

definition js_floor :: "jsnum \<Rightarrow> jsnum" where
  "js_floor a = (case a of Fin q \<Rightarrow> Fin (of_int \<lfloor>q\<rfloor>) | _ \<Rightarrow> a)"

subsection \<open>\<open>Number(s)\<close> on a string\<close>

text \<open>
  A string to be read as a number is kept as its UTF-16 code units (integers from 0 to
  65535), since the white space that \<open>Number\<close> strips reaches beyond Latin-1. \<open>utf16\<close>
  turns a literal of the theory into code units.
\<close>

type_synonym ustring = "int list"

definition cu :: "char \<Rightarrow> int" where
  "cu c = of_char c"

definition utf16 :: "string \<Rightarrow> ustring" where
  "utf16 s = map cu s"

text \<open>
  The StringToNumber grammar of ECMAScript: the white space and line terminators of
  StrWhiteSpaceChar are trimmed, the empty string is 0, then a signed decimal literal (with
  fraction and exponent), \<open>Infinity\<close>, or an unsigned hexadecimal, octal or binary integer
  literal; everything else is NaN. The mathematical value of the literal is rounded to the
  nearest double, as V8 does for literals of any length.
\<close>

definition is_ws :: "int \<Rightarrow> bool" where
  "is_ws c \<longleftrightarrow>
     c \<in> set [0x09, 0x0A, 0x0B, 0x0C, 0x0D, 0x20, 0xA0, 0x1680, 0x2028, 0x2029, 0x202F, 0x205F,
               0x3000, 0xFEFF] \<or>
     (0x2000 \<le> c \<and> c \<le> 0x200A)"

definition trim :: "ustring \<Rightarrow> ustring" where
  "trim s = rev (dropWhile is_ws (rev (dropWhile is_ws s)))"

definition digit_of :: "int \<Rightarrow> int option" where
  "digit_of n =
     (if 48 \<le> n \<and> n \<le> 57 then Some (n - 48)
      else if 97 \<le> n \<and> n \<le> 102 then Some (n - 87)
      else if 65 \<le> n \<and> n \<le> 70 then Some (n - 55)
      else None)"

definition is_dec :: "int \<Rightarrow> bool" where
  "is_dec c \<longleftrightarrow> (case digit_of c of None \<Rightarrow> False | Some d \<Rightarrow> d < 10)"

fun digits_acc :: "int \<Rightarrow> int \<Rightarrow> ustring \<Rightarrow> int option" where
  "digits_acc r acc [] = Some acc"
| "digits_acc r acc (c # cs) =
     (case digit_of c of
        None \<Rightarrow> None
      | Some d \<Rightarrow> if d < r then digits_acc r (acc * r + d) cs else None)"

definition digits :: "int \<Rightarrow> ustring \<Rightarrow> int option" where
  "digits r s = (if s = [] then None else digits_acc r 0 s)"

definition exponent_part :: "ustring \<Rightarrow> int option" where
  "exponent_part s =
     (case s of
        [] \<Rightarrow> Some 0
      | c # cs \<Rightarrow>
          if c = cu CHR ''e'' \<or> c = cu CHR ''E'' then
            (case cs of
               [] \<Rightarrow> None
             | d # ds \<Rightarrow>
                 if d = cu CHR ''+'' then digits 10 ds
                 else if d = cu CHR ''-'' then map_option uminus (digits 10 ds)
                 else digits 10 cs)
          else None)"

definition pow10 :: "int \<Rightarrow> rat" where
  "pow10 e = (if 0 \<le> e then ipow 10 e else 1 / ipow 10 (- e))"

text \<open>The value of a run of decimal digits; the empty run counts 0.\<close>

definition dec_value :: "ustring \<Rightarrow> int" where
  "dec_value s = (case digits_acc 10 0 s of None \<Rightarrow> 0 | Some n \<Rightarrow> n)"

text \<open>The mathematical value of an unsigned decimal literal.\<close>

definition unsigned_decimal :: "ustring \<Rightarrow> rat option" where
  "unsigned_decimal s =
     (let ip = takeWhile is_dec s;
          r1 = dropWhile is_dec s;
          fp = (case r1 of [] \<Rightarrow> [] | c # cs \<Rightarrow> if c = cu CHR ''.'' then takeWhile is_dec cs else []);
          r2 = (case r1 of [] \<Rightarrow> [] | c # cs \<Rightarrow> if c = cu CHR ''.'' then dropWhile is_dec cs else r1)
      in if ip = [] \<and> fp = [] then None
         else (case exponent_part r2 of
                 None \<Rightarrow> None
               | Some e \<Rightarrow>
                   Some ((of_int (dec_value ip) + of_int (dec_value fp) * pow10 (- int (length fp)))
                         * pow10 e)))"

definition unsigned_literal :: "ustring \<Rightarrow> jsnum" where
  "unsigned_literal s =
     (if s = utf16 ''Infinity'' then PosInf
      else (case unsigned_decimal s of None \<Rightarrow> NaN | Some q \<Rightarrow> dbl q))"

definition radix_literal :: "int \<Rightarrow> ustring \<Rightarrow> jsnum" where
  "radix_literal r s = (case digits r s of None \<Rightarrow> NaN | Some n \<Rightarrow> dbl (of_int n))"

definition Number_str :: "ustring \<Rightarrow> jsnum" where
  "Number_str s =
     (case trim s of
        [] \<Rightarrow> Fin 0
      | c # cs \<Rightarrow>
          if c = cu CHR ''+'' then unsigned_literal cs
          else if c = cu CHR ''-'' then negate (unsigned_literal cs)
          else (case cs of
                  [] \<Rightarrow> unsigned_literal [c]
                | x # ds \<Rightarrow>
                    if c = cu CHR ''0'' \<and> (x = cu CHR ''x'' \<or> x = cu CHR ''X'') then radix_literal 16 ds
                    else if c = cu CHR ''0'' \<and> (x = cu CHR ''o'' \<or> x = cu CHR ''O'') then radix_literal 8 ds
                    else if c = cu CHR ''0'' \<and> (x = cu CHR ''b'' \<or> x = cu CHR ''B'') then radix_literal 2 ds
                    else unsigned_literal (c # cs)))"

text \<open>A user id of the table as a number.\<close>

definition Number_int :: "int \<Rightarrow> jsnum" where
  "Number_int n = Fin (of_int n)"

subsection \<open>\<open>s.split(' ')\<close>\<close>

fun js_split :: "string \<Rightarrow> string list" where
  "js_split [] = [[]]"
| "js_split (c # cs) =
     (if c = CHR '' '' then [] # js_split cs
      else (case js_split cs of [] \<Rightarrow> [[c]] | p # ps \<Rightarrow> (c # p) # ps))"

section \<open>The in-memory database\<close>

record movie =
  mid :: jsnum
  movietitle :: jsval
  language :: jsval
  watched :: jsval

record user =
  uid :: int
  username :: string
  password :: string
  movies :: "movie list"

definition users :: "user list" where
  "users =
     [\<lparr>uid = 1, username = ''Ashwanth'', password = ''kok123'', movies = []\<rparr>,
      \<lparr>uid = 2, username = ''alice'', password = ''123'', movies = []\<rparr>]"

text \<open>\<open>process.env.SECRET_KEY || 'fallback_secret_key'\<close>\<close>

definition SECRET_KEY :: "string option \<Rightarrow> string" where
  "SECRET_KEY env =
     (case env of
        None \<Rightarrow> ''fallback_secret_key''
      | Some s \<Rightarrow> if s = [] then ''fallback_secret_key'' else s)"

text \<open>
  \<open>Date.now() + Math.floor(Math.random() * 1000)\<close>, from the two readings: the clock in
  whole milliseconds and the double drawn. Product and sum are those of doubles.
\<close>

definition generateId :: "int \<Rightarrow> rat \<Rightarrow> jsnum" where
  "generateId now rnd = js_plus (Fin (of_int now)) (js_floor (js_times (Fin rnd) (Fin 1000)))"

section \<open>The token library\<close>

text \<open>
  \<open>jsonwebtoken\<close> is a dependency, not code of the service: the service is modelled over
  any implementation of its two entry points. \<open>jwt_sign payload key expiresIn now\<close> is
  \<open>jwt.sign(payload, key, {expiresIn})\<close> with the validity in seconds and the clock reading
  \<open>Date.now()\<close> the library takes. \<open>jwt_verify token key now\<close> is the outcome of
  \<open>jwt.verify(token, key, callback)\<close>: the library calls back with an error, or with the
  decoded payload, or it throws before it calls back.
\<close>

datatype jwt_error = JsonWebTokenError | TokenExpiredError | NotBeforeError

datatype verified = Throws | Failed jwt_error | Decoded jsval

record jwt =
  jwt_sign :: "jsval \<Rightarrow> string \<Rightarrow> int \<Rightarrow> int \<Rightarrow> string"
  jwt_verify :: "string \<Rightarrow> string \<Rightarrow> int \<Rightarrow> verified"

section \<open>Requests and responses\<close>

datatype route =
    PostLogin
  | GetMovies
  | PostMovies
  | GetMovie ustring
  | PutMovie ustring
  | PatchMovie ustring
  | DeleteMovie ustring
  | Unmatched

record request =
  route :: route
  authorization :: "string option"
  query_status :: jsval
  body :: jsval

text \<open>
  What a response carries. \<open>ServerError\<close> is the page of the framework's default error
  handler, sent with status 500 when a middleware throws: the service registers no error
  handler and catches nothing.
\<close>

datatype payload =
    Message string
  | Token string
  | OneMovie movie
  | MovieList "movie list"
  | NoBody
  | ServerError

type_synonym response = "nat \<times> payload"

section \<open>Handlers\<close>

fun find_idx :: "('a \<Rightarrow> bool) \<Rightarrow> 'a list \<Rightarrow> nat option" where
  "find_idx P [] = None"
| "find_idx P (x # xs) = (if P x then Some 0 else map_option Suc (find_idx P xs))"

definition login :: "jwt \<Rightarrow> string option \<Rightarrow> int \<Rightarrow> jsval \<Rightarrow> user list \<Rightarrow> response" where
  "login J env now b us =
     (let un = get_prop (or_empty b) ''username'';
          pw = get_prop (or_empty b) ''password''
      in if \<not> truthy un \<or> \<not> truthy pw then (400, Message ''username and password required'')
         else (case find (\<lambda>u. strict_eq (JStr (username u)) un \<and> strict_eq (JStr (password u)) pw) us of
                 None \<Rightarrow> (401, Message ''Invalid credentials'')
               | Some u \<Rightarrow>
                   (200, Token (jwt_sign J
                      (JObj [(''id'', JNum (Number_int (uid u))), (''username'', JStr (username u))])
                      (SECRET_KEY env) 86400 now))))"

text \<open>\<open>authHeader && authHeader.split(' ')[1]\<close>, with \<open>None\<close> for every falsy outcome.\<close>

definition bearer_token :: "string option \<Rightarrow> string option" where
  "bearer_token authHeader =
     (case authHeader of
        None \<Rightarrow> None
      | Some h \<Rightarrow>
          if h = [] then None
          else (case js_split h of
                  _ # t # _ \<Rightarrow> if t = [] then None else Some t
                | _ \<Rightarrow> None))"

text \<open>
  The middleware answers itself (\<open>Inl\<close>) or calls \<open>next()\<close> with \<open>req.user\<close> bound to an
  element of \<open>users\<close>; \<open>Inr i\<close> is the position of that element, since the handlers mutate
  the very object. Nothing catches what \<open>jwt.verify\<close> throws, nor the TypeError of reading
  \<open>decoded.id\<close> when the payload handed over is \<open>null\<close> or \<open>undefined\<close>: the framework then
  answers 500.
\<close>

definition authenticateToken ::
  "jwt \<Rightarrow> string option \<Rightarrow> int \<Rightarrow> string option \<Rightarrow> user list \<Rightarrow> response + nat" where
  "authenticateToken J env now authHeader us =
     (case bearer_token authHeader of
        None \<Rightarrow> Inl (401, Message ''Missing token'')
      | Some token \<Rightarrow>
          (case jwt_verify J token (SECRET_KEY env) now of
             Throws \<Rightarrow> Inl (500, ServerError)
           | Failed err \<Rightarrow> Inl (403, Message ''Invalid or expired token'')
           | Decoded decoded \<Rightarrow>
               if decoded = JUndefined \<or> decoded = JNull then Inl (500, ServerError)
               else (case find_idx (\<lambda>u. strict_eq (JNum (Number_int (uid u))) (get_prop decoded ''id'')) us of
                       None \<Rightarrow> Inl (401, Message ''User not found'')
                     | Some i \<Rightarrow> Inr i)))"

definition list_movies :: "jsval \<Rightarrow> user \<Rightarrow> response \<times> user" where
  "list_movies status u =
     ((200, MovieList
         (if strict_eq status (JStr ''watched'')
            then filter (\<lambda>m. strict_eq (watched m) (JBool True)) (movies u)
          else if strict_eq status (JStr ''unwatched'')
            then filter (\<lambda>m. strict_eq (watched m) (JBool False)) (movies u)
          else movies u)), u)"

definition create_movie :: "int \<Rightarrow> rat \<Rightarrow> jsval \<Rightarrow> user \<Rightarrow> response \<times> user" where
  "create_movie now rnd b u =
     (let t = get_prop (or_empty b) ''movietitle'';
          l = get_prop (or_empty b) ''language'';
          w = get_prop (or_empty b) ''watched''
      in if \<not> truthy t \<or> \<not> truthy l
           then ((400, Message ''movietitle and language are required''), u)
         else
           (let newMovie = \<lparr>mid = generateId now rnd, movietitle = t, language = l,
                            watched = (if strict_eq w JUndefined then JBool False else JBool (truthy w))\<rparr>
            in ((201, OneMovie newMovie), u\<lparr>movies := movies u @ [newMovie]\<rparr>)))"

text \<open>
  \<open>movies.find(m => Number(m.id) === id)\<close>, as the position of the movie found. A stored
  id is a number, which \<open>Number\<close> returns as it is.
\<close>

definition find_movie :: "jsnum \<Rightarrow> movie list \<Rightarrow> nat option" where
  "find_movie n ms = find_idx (\<lambda>m. num_eq (mid m) n) ms"

definition get_movie :: "ustring \<Rightarrow> user \<Rightarrow> response \<times> user" where
  "get_movie s u =
     (case find_movie (Number_str s) (movies u) of
        None \<Rightarrow> ((404, Message ''Movie not found''), u)
      | Some j \<Rightarrow> ((200, OneMovie (movies u ! j)), u))"

definition put_movie :: "ustring \<Rightarrow> jsval \<Rightarrow> user \<Rightarrow> response \<times> user" where
  "put_movie s b u =
     (case find_movie (Number_str s) (movies u) of
        None \<Rightarrow> ((404, Message ''Movie not found''), u)
      | Some j \<Rightarrow>
          (let t = get_prop (or_empty b) ''movietitle'';
               l = get_prop (or_empty b) ''language'';
               w = get_prop (or_empty b) ''watched''
           in if strict_eq t JUndefined \<or> strict_eq l JUndefined \<or> strict_eq w JUndefined
                then ((400, Message ''movietitle, language and watched are required for full update''), u)
              else
                (let m = (movies u ! j)\<lparr>movietitle := t, language := l, watched := JBool (truthy w)\<rparr>
                 in ((200, OneMovie m), u\<lparr>movies := (movies u)[j := m]\<rparr>))))"

definition patch_movie :: "ustring \<Rightarrow> jsval \<Rightarrow> user \<Rightarrow> response \<times> user" where
  "patch_movie s b u =
     (case find_movie (Number_str s) (movies u) of
        None \<Rightarrow> ((404, Message ''Movie not found''), u)
      | Some j \<Rightarrow>
          (let t = get_prop (or_empty b) ''movietitle'';
               l = get_prop (or_empty b) ''language'';
               w = get_prop (or_empty b) ''watched'';
               m0 = movies u ! j;
               m1 = (if \<not> strict_eq t JUndefined then m0\<lparr>movietitle := t\<rparr> else m0);
               m2 = (if \<not> strict_eq l JUndefined then m1\<lparr>language := l\<rparr> else m1);
               m3 = (if \<not> strict_eq w JUndefined then m2\<lparr>watched := JBool (truthy w)\<rparr> else m2)
           in ((200, OneMovie m3), u\<lparr>movies := (movies u)[j := m3]\<rparr>)))"

definition delete_movie :: "ustring \<Rightarrow> user \<Rightarrow> response \<times> user" where
  "delete_movie s u =
     (let n = Number_str s;
          len_before = length (movies u);
          u' = u\<lparr>movies := filter (\<lambda>m. \<not> num_eq (mid m) n) (movies u)\<rparr>;
          len_after = length (movies u')
      in if len_before = len_after then ((404, Message ''Movie not found''), u')
         else ((204, NoBody), u'))"

text \<open>
  A route registered as \<open>app.verb(path, authenticateToken, handler)\<close>: the handler runs on
  \<open>req.user\<close> only when the middleware has called \<open>next()\<close>, and what it does to that
  object is done to the element of \<open>users\<close>.
\<close>

definition protected ::
  "jwt \<Rightarrow> string option \<Rightarrow> int \<Rightarrow> request \<Rightarrow> (user \<Rightarrow> response \<times> user) \<Rightarrow> user list
     \<Rightarrow> response \<times> user list" where
  "protected J env now req handler us =
     (case authenticateToken J env now (authorization req) us of
        Inl res \<Rightarrow> (res, us)
      | Inr i \<Rightarrow> (fst (handler (us ! i)), us[i := snd (handler (us ! i))]))"

text \<open>
  The API routes in the order they are registered, ending in the catch-all. The request is
  taken as the JSON middleware hands it on, with the body parsed; the static files and the
  page served at \<open>/\<close> are outside the model.
\<close>

definition handle ::
  "jwt \<Rightarrow> string option \<Rightarrow> int \<Rightarrow> rat \<Rightarrow> request \<Rightarrow> user list \<Rightarrow> response \<times> user list" where
  "handle J env now rnd req us =
     (case route req of
        PostLogin \<Rightarrow> (login J env now (body req) us, us)
      | GetMovies \<Rightarrow> protected J env now req (list_movies (query_status req)) us
      | PostMovies \<Rightarrow> protected J env now req (create_movie now rnd (body req)) us
      | GetMovie s \<Rightarrow> protected J env now req (get_movie s) us
      | PutMovie s \<Rightarrow> protected J env now req (put_movie s (body req)) us
      | PatchMovie s \<Rightarrow> protected J env now req (patch_movie s (body req)) us
      | DeleteMovie s \<Rightarrow> protected J env now req (delete_movie s) us
      | Unmatched \<Rightarrow> ((404, Message ''Endpoint not found''), us))"

text \<open>A sequence of requests, each with the clock and random readings taken while it runs.\<close>

type_synonym event = "int \<times> rat \<times> request"

fun run :: "jwt \<Rightarrow> string option \<Rightarrow> user list \<Rightarrow> event list \<Rightarrow> user list" where
  "run J env us [] = us"
| "run J env us ((now, rnd, req) # es) = run J env (snd (handle J env now rnd req us)) es"

section \<open>Notions used in the properties\<close>

definition credentials :: "user \<Rightarrow> int \<times> string \<times> string" where
  "credentials u = (uid u, username u, password u)"

definition is_bool :: "jsval \<Rightarrow> bool" where
  "is_bool v = (case v of JBool _ \<Rightarrow> True | _ \<Rightarrow> False)"

definition all_watched_bool :: "user \<Rightarrow> bool" where
  "all_watched_bool u \<longleftrightarrow> (\<forall>m\<in>set (movies u). is_bool (watched m))"

definition distinct_ids :: "user \<Rightarrow> bool" where
  "distinct_ids u \<longleftrightarrow> distinct (map mid (movies u))"

text \<open>The routes registered with the middleware.\<close>

definition guarded :: "request \<Rightarrow> bool" where
  "guarded req \<longleftrightarrow> route req \<noteq> PostLogin \<and> route req \<noteq> Unmatched"

text \<open>The request passes the middleware of a protected route as the user at position \<open>b\<close>.\<close>

definition acts_as :: "jwt \<Rightarrow> string option \<Rightarrow> user list \<Rightarrow> nat \<Rightarrow> event \<Rightarrow> bool" where
  "acts_as J env us b =
     (\<lambda>(now, rnd, req).
        route req \<noteq> PostLogin \<and> route req \<noteq> Unmatched \<and>
        authenticateToken J env now (authorization req) us = Inr b)"

text \<open>
  The request is a \<open>POST /movies\<close> that passes the middleware as the user at position \<open>i\<close>
  and whose body passes the validation: the requests that store a new movie.
\<close>

definition creates_for :: "jwt \<Rightarrow> string option \<Rightarrow> user list \<Rightarrow> nat \<Rightarrow> event \<Rightarrow> bool" where
  "creates_for J env us i =
     (\<lambda>(now, rnd, req).
        route req = PostMovies \<and>
        authenticateToken J env now (authorization req) us = Inr i \<and>
        truthy (get_prop (or_empty (body req)) ''movietitle'') \<and>
        truthy (get_prop (or_empty (body req)) ''language''))"

text \<open>
  A request that stores a new movie draws an id that the collection of its user does not
  hold yet; every other request qualifies as it is.
\<close>

definition draws_new_id :: "jwt \<Rightarrow> string option \<Rightarrow> user list \<Rightarrow> event \<Rightarrow> bool" where
  "draws_new_id J env us =
     (\<lambda>(now, rnd, req).
        list_all (\<lambda>i. creates_for J env us i (now, rnd, req) \<longrightarrow>
                       generateId now rnd \<notin> set (map mid (movies (us ! i))))
          [0..<length us])"

fun draws_new_ids :: "jwt \<Rightarrow> string option \<Rightarrow> user list \<Rightarrow> event list \<Rightarrow> bool" where
  "draws_new_ids J env us [] = True"
| "draws_new_ids J env us ((now, rnd, req) # es) =
     (draws_new_id J env us (now, rnd, req) \<and>
      draws_new_ids J env (snd (handle J env now rnd req us)) es)"

text \<open>
  The token, presented as \<open>Bearer\<close> token at clock reading \<open>t\<close> on the table \<open>vs\<close>, passes
  the guard as the user with the credentials of \<open>u\<close>, and \<open>GET /movies\<close> with it answers
  200 with the movies of that user.
\<close>

definition accepted_as :: "jwt \<Rightarrow> string option \<Rightarrow> int \<Rightarrow> string \<Rightarrow> user list \<Rightarrow> user \<Rightarrow> bool" where
  "accepted_as J env t tok vs u \<longleftrightarrow>
     (\<exists>i. authenticateToken J env t (Some (''Bearer '' @ tok)) vs = Inr i \<and>
          credentials (vs ! i) = credentials u \<and>
          (\<forall>rnd. handle J env t rnd
             \<lparr>route = GetMovies, authorization = Some (''Bearer '' @ tok),
              query_status = JUndefined, body = JUndefined\<rparr> vs =
             ((200, MovieList (movies (vs ! i))), vs)))"

text \<open>
  Every request to a protected route that presents the token as \<open>Bearer\<close> token at clock
  reading \<open>t\<close> is answered 403 by the guard, the table unchanged.
\<close>

definition rejected_403 :: "jwt \<Rightarrow> string option \<Rightarrow> int \<Rightarrow> string \<Rightarrow> user list \<Rightarrow> bool" where
  "rejected_403 J env t tok vs \<longleftrightarrow>
     (\<forall>rnd req. guarded req \<and> authorization req = Some (''Bearer '' @ tok) \<longrightarrow>
        handle J env t rnd req vs = ((403, Message ''Invalid or expired token''), vs))"

subsection \<open>Concrete data\<close>

text \<open>
  A fixed-answer double of the token library. It keeps time as the library does, in whole
  seconds \<open>Date.now() div 1000\<close>. Its tokens \<open>h.1.s\<close>, \<open>h.2.s\<close> and \<open>h.7.s\<close> stand for
  payloads with the ids 1, 2 and 7, signed under the fallback key in the second 1700000000
  for 24 hours; \<open>h.null.s\<close> stands for a token signed under the same key whose payload is
  the JSON value \<open>null\<close>, on which the library throws while it reads the claims.
\<close>

definition stub_jwt :: jwt where
  "stub_jwt =
     \<lparr>jwt_sign = (\<lambda>p key ttl now.
         if get_prop p ''id'' = JNum (Fin 1) then ''h.1.s''
         else if get_prop p ''id'' = JNum (Fin 2) then ''h.2.s'' else ''h.7.s''),
      jwt_verify = (\<lambda>tok key now.
         if key = ''fallback_secret_key'' \<and>
            tok \<in> set [''h.1.s'', ''h.2.s'', ''h.7.s'', ''h.null.s'']
         then
           (if tok = ''h.null.s'' then Throws
            else if 1700086400 \<le> now div 1000 then Failed TokenExpiredError
            else Decoded (JObj
              [(''id'', JNum (Fin (if tok = ''h.1.s'' then 1 else if tok = ''h.2.s'' then 2 else 7))),
               (''username'', JStr (if tok = ''h.1.s'' then ''Ashwanth''
                                    else if tok = ''h.2.s'' then ''alice'' else ''bob'')),
               (''iat'', JNum (Fin 1700000000)), (''exp'', JNum (Fin 1700086400))]))
         else Failed JsonWebTokenError)\<rparr>"

definition bearer :: "string \<Rightarrow> route \<Rightarrow> jsval \<Rightarrow> jsval \<Rightarrow> request" where
  "bearer tok r q b =
     \<lparr>route = r, authorization = Some (''Bearer '' @ tok), query_status = q, body = b\<rparr>"

definition login_alice :: request where
  "login_alice =
     \<lparr>route = PostLogin, authorization = None, query_status = JUndefined,
      body = JObj [(''username'', JStr ''alice''), (''password'', JStr ''123'')]\<rparr>"

definition inception :: jsval where
  "inception = JObj [(''movietitle'', JStr ''Inception''), (''language'', JStr ''English'')]"

definition m_inception :: movie where
  "m_inception = \<lparr>mid = Fin 1700000000500, movietitle = JStr ''Inception'',
                   language = JStr ''English'', watched = JBool False\<rparr>"

definition m_dune :: movie where
  "m_dune = \<lparr>mid = Fin 1700000000777, movietitle = JStr ''Dune'',
              language = JStr ''English'', watched = JBool True\<rparr>"

text \<open>The table after alice has stored two movies.\<close>

definition users2 :: "user list" where
  "users2 =
     [\<lparr>uid = 1, username = ''Ashwanth'', password = ''kok123'', movies = []\<rparr>,
      \<lparr>uid = 2, username = ''alice'', password = ''123'', movies = [m_inception, m_dune]\<rparr>]"

definition dune_yes :: jsval where
  "dune_yes = JObj [(''movietitle'', JStr ''Dune''), (''language'', JStr ''English''),
                    (''watched'', JStr ''yes'')]"

text \<open>Both users create a movie; alice patches hers, Ashwanth replaces his.\<close>

definition session :: "event list" where
  "session =
     [(1700000000000, 1 / 2, bearer ''h.2.s'' PostMovies JUndefined inception),
      (1700000000001, 3 / 4, bearer ''h.1.s'' PostMovies JUndefined dune_yes),
      (1700000000002, 0, bearer ''h.2.s'' (PatchMovie (utf16 ''1700000000500'')) JUndefined
         (JObj [(''watched'', JNum (Fin 1))])),
      (1700000000003, 0, bearer ''h.1.s'' (PutMovie (utf16 ''1700000000751'')) JUndefined
         (JObj [(''movietitle'', JStr ''Dune''), (''language'', JStr ''French''), (''watched'', JNull)]))]"

section \<open>Auxiliary facts\<close>

subsection \<open>Comparisons and searching\<close>

lemma strict_eq_JStr [simp]: "strict_eq a (JStr s) \<longleftrightarrow> a = JStr s"
  by (cases a) auto

lemma strict_eq_JBool [simp]: "strict_eq a (JBool b) \<longleftrightarrow> a = JBool b"
  by (cases a) auto

lemma strict_eq_JUndefined [simp]: "strict_eq a JUndefined \<longleftrightarrow> a = JUndefined"
  by (cases a) auto

lemma num_eq_NaN [simp]: "\<not> num_eq a NaN"
  by (simp add: num_eq_def)

lemma find_idx_SomeD:
  "find_idx P xs = Some i \<Longrightarrow> i < length xs \<and> P (xs ! i) \<and> (\<forall>j<i. \<not> P (xs ! j))"
proof (induction xs arbitrary: i)
  case Nil
  then show ?case by simp
next
  case (Cons x xs)
  show ?case
  proof (cases "P x")
    case True
    with Cons.prems show ?thesis by simp
  next
    case False
    with Cons.prems obtain k where k: "find_idx P xs = Some k" "i = Suc k"
      by auto
    from Cons.IH [OF k(1)] False k(2) show ?thesis
      by (auto simp: less_Suc_eq_0_disj)
  qed
qed

lemma find_idx_None_iff: "find_idx P xs = None \<longleftrightarrow> (\<forall>x\<in>set xs. \<not> P x)"
  by (induction xs) auto

lemma find_idx_map: "find_idx (\<lambda>x. Q (f x)) xs = find_idx Q (map f xs)"
  by (induction xs) auto

lemmas run_defs =
  handle_def protected_def authenticateToken_def bearer_token_def login_def SECRET_KEY_def
  users_def stub_jwt_def Number_int_def num_eq_def or_empty_def
  list_movies_def create_movie_def get_movie_def put_movie_def patch_movie_def delete_movie_def
  find_movie_def bearer_def inception_def m_inception_def m_dune_def users2_def
  dune_yes_def login_alice_def Let_def

lemma auth_index_less:
  "authenticateToken J env now h us = Inr i \<Longrightarrow> i < length us"
  by (auto simp: authenticateToken_def dest: find_idx_SomeD
      split: option.splits verified.splits if_splits)

lemma find_movie_NaN [simp]: "find_movie NaN ms = None"
  by (simp add: find_movie_def find_idx_None_iff)


subsection \<open>Splitting the header\<close>

lemma js_split_not_Nil [simp]: "js_split s \<noteq> []"
  by (induction s) (auto split: list.splits)

lemma js_split_no_space: "CHR '' '' \<notin> set s \<Longrightarrow> js_split s = [s]"
  by (induction s) auto

lemma js_split_scheme:
  "CHR '' '' \<notin> set scheme \<Longrightarrow> js_split (scheme @ CHR '' '' # rest) = scheme # js_split rest"
  by (induction scheme) auto


lemma bearer_token_scheme:
  "CHR '' '' \<notin> set scheme \<Longrightarrow>
   bearer_token (Some (scheme @ CHR '' '' # rest)) =
     (if hd (js_split rest) = [] then None else Some (hd (js_split rest)))"
  by (cases "js_split rest") (simp_all add: bearer_token_def js_split_scheme)

subsection \<open>Deleting by id\<close>

lemma filter_length_eq_iff: "length (filter P xs) = length xs \<longleftrightarrow> (\<forall>x\<in>set xs. P x)"
  by (metis filter_True length_filter_less less_irrefl)

lemma find_movie_filtered [simp]:
  "find_movie n (filter (\<lambda>m. \<not> num_eq (mid m) n) ms) = None"
  by (simp add: find_movie_def find_idx_None_iff)

subsection \<open>Invariants of the table\<close>

text \<open>
  A property of single user records that every handler preserves on the record it is given
  holds of all records after a request, and so after a sequence of requests.
\<close>

lemma protected_invariant:
  assumes "\<forall>u\<in>set us. P u"
      and "\<And>i. authenticateToken J env now (authorization req) us = Inr i \<Longrightarrow> P (us ! i) \<Longrightarrow> P (snd (h (us ! i)))"
  shows "\<forall>u\<in>set (snd (protected J env now req h us)). P u"
proof (cases "authenticateToken J env now (authorization req) us")
  case (Inl res)
  with assms(1) show ?thesis
    by (simp add: protected_def)
next
  case (Inr i)
  then have "i < length us"
    by (rule auth_index_less)
  with assms(1) have "P (us ! i)"
    by simp
  with assms(2) Inr have "P (snd (h (us ! i)))"
    by blast
  with assms(1) Inr show ?thesis
    by (auto simp: protected_def dest: subsetD [OF set_update_subset_insert])
qed

lemma list_movies_bool: "all_watched_bool u \<Longrightarrow> all_watched_bool (snd (list_movies q u))"
  by (simp add: list_movies_def)

lemma create_movie_bool: "all_watched_bool u \<Longrightarrow> all_watched_bool (snd (create_movie now rnd b u))"
  by (simp add: create_movie_def all_watched_bool_def is_bool_def Let_def)

lemma get_movie_bool: "all_watched_bool u \<Longrightarrow> all_watched_bool (snd (get_movie s u))"
  by (simp add: get_movie_def split: option.splits)

lemma put_movie_bool: "all_watched_bool u \<Longrightarrow> all_watched_bool (snd (put_movie s b u))"
  by (auto simp: put_movie_def all_watched_bool_def is_bool_def Let_def
      split: option.splits dest: subsetD [OF set_update_subset_insert])

lemma patch_movie_bool: "all_watched_bool u \<Longrightarrow> all_watched_bool (snd (patch_movie s b u))"
proof (cases "find_movie (Number_str s) (movies u)")
  case None
  assume "all_watched_bool u"
  with None show ?thesis
    by (simp add: patch_movie_def)
next
  case (Some j)
  assume u: "all_watched_bool u"
  from Some have "j < length (movies u)"
    by (auto simp: find_movie_def dest: find_idx_SomeD)
  with u have "is_bool (watched (movies u ! j))"
    by (simp add: all_watched_bool_def)
  with u Some show ?thesis
    by (auto simp: patch_movie_def all_watched_bool_def is_bool_def Let_def
        dest!: subsetD [OF set_update_subset_insert])
qed

lemma delete_movie_bool: "all_watched_bool u \<Longrightarrow> all_watched_bool (snd (delete_movie s u))"
  by (simp add: delete_movie_def all_watched_bool_def Let_def)

lemma handle_bool:
  assumes "\<forall>u\<in>set us. all_watched_bool u"
  shows "\<forall>u\<in>set (snd (handle J env now rnd req us)). all_watched_bool u"
proof (cases "route req")
  case PostLogin
  with assms show ?thesis by (simp add: handle_def)
next
  case GetMovies
  with protected_invariant [OF assms list_movies_bool] show ?thesis by (simp add: handle_def)
next
  case PostMovies
  with protected_invariant [OF assms create_movie_bool] show ?thesis by (simp add: handle_def)
next
  case (GetMovie s)
  with protected_invariant [OF assms get_movie_bool] show ?thesis by (simp add: handle_def)
next
  case (PutMovie s)
  with protected_invariant [OF assms put_movie_bool] show ?thesis by (simp add: handle_def)
next
  case (PatchMovie s)
  with protected_invariant [OF assms patch_movie_bool] show ?thesis by (simp add: handle_def)
next
  case (DeleteMovie s)
  with protected_invariant [OF assms delete_movie_bool] show ?thesis by (simp add: handle_def)
next
  case Unmatched
  with assms show ?thesis by (simp add: handle_def)
qed

lemma run_bool:
  "\<forall>u\<in>set us. all_watched_bool u \<Longrightarrow> \<forall>u\<in>set (run J env us es). all_watched_bool u"
proof (induction es arbitrary: us)
  case Nil
  then show ?case by simp
next
  case (Cons e es)
  obtain now rnd req where e: "e = (now, rnd, req)"
    by (cases e)
  from Cons.prems have "\<forall>u\<in>set (snd (handle J env now rnd req us)). all_watched_bool u"
    by (rule handle_bool)
  then show ?case
    unfolding e run.simps by (rule Cons.IH)
qed

lemma session_result:
  "run stub_jwt None users session =
     [\<lparr>uid = 1, username = ''Ashwanth'', password = ''kok123'',
        movies = [\<lparr>mid = Fin 1700000000751, movietitle = JStr ''Dune'', language = JStr ''French'',
                    watched = JBool False\<rparr>]\<rparr>,
      \<lparr>uid = 2, username = ''alice'', password = ''123'',
        movies = [\<lparr>mid = Fin 1700000000500, movietitle = JStr ''Inception'', language = JStr ''English'',
                    watched = JBool True\<rparr>]\<rparr>]"
  by code_simp

lemma map_update_same:
  assumes "f y = f (xs ! i)"
  shows "map f (xs[i := y]) = map f xs"
proof (cases "i < length xs")
  case True
  with assms have "(map f xs)[i := f y] = map f xs"
    by (metis list_update_id nth_map)
  then show ?thesis
    by (simp add: map_update)
next
  case False
  then show ?thesis by (simp add: list_update_beyond not_less)
qed

lemma list_movies_ids: "map mid (movies (snd (list_movies q u))) = map mid (movies u)"
  by (simp add: list_movies_def)

lemma get_movie_ids: "map mid (movies (snd (get_movie s u))) = map mid (movies u)"
  by (simp add: get_movie_def split: option.splits)

lemma put_movie_ids: "map mid (movies (snd (put_movie s b u))) = map mid (movies u)"
  by (simp add: put_movie_def Let_def map_update_same split: option.splits)

lemma patch_movie_ids: "map mid (movies (snd (patch_movie s b u))) = map mid (movies u)"
  by (simp add: patch_movie_def Let_def map_update_same split: option.splits)

lemma delete_movie_distinct: "distinct_ids u \<Longrightarrow> distinct_ids (snd (delete_movie s u))"
  by (simp add: delete_movie_def distinct_ids_def Let_def distinct_map_filter)

lemma create_movie_distinct:
  "distinct_ids u \<Longrightarrow> generateId now rnd \<notin> set (map mid (movies u)) \<Longrightarrow>
   distinct_ids (snd (create_movie now rnd b u))"
  by (simp add: create_movie_def distinct_ids_def Let_def)

lemma handle_distinct:
  assumes inv: "\<forall>u\<in>set us. distinct_ids u"
      and new: "draws_new_id J env us (now, rnd, req)"
  shows "\<forall>u\<in>set (snd (handle J env now rnd req us)). distinct_ids u"
proof (cases "route req")
  case PostLogin
  with inv show ?thesis by (simp add: handle_def)
next
  case GetMovies
  have "\<forall>u\<in>set (snd (protected J env now req (list_movies (query_status req)) us)). distinct_ids u"
    by (rule protected_invariant [OF inv]) (simp add: distinct_ids_def list_movies_ids)
  with GetMovies show ?thesis by (simp add: handle_def)
next
  case PostMovies
  have "\<forall>u\<in>set (snd (protected J env now req (create_movie now rnd (body req)) us)). distinct_ids u"
  proof (rule protected_invariant [OF inv])
    fix i
    assume a: "authenticateToken J env now (authorization req) us = Inr i"
      and d: "distinct_ids (us ! i)"
    show "distinct_ids (snd (create_movie now rnd (body req) (us ! i)))"
    proof (cases "creates_for J env us i (now, rnd, req)")
      case True
      from a have "i < length us"
        by (rule auth_index_less)
      with new True have "generateId now rnd \<notin> set (map mid (movies (us ! i)))"
        by (simp add: draws_new_id_def list_all_iff)
      with d show ?thesis
        by (rule create_movie_distinct)
    next
      case False
      with a PostMovies have "snd (create_movie now rnd (body req) (us ! i)) = us ! i"
        by (auto simp: creates_for_def create_movie_def)
      with d show ?thesis
        by simp
    qed
  qed
  with PostMovies show ?thesis by (simp add: handle_def)
next
  case (GetMovie s)
  have "\<forall>u\<in>set (snd (protected J env now req (get_movie s) us)). distinct_ids u"
    by (rule protected_invariant [OF inv]) (simp add: distinct_ids_def get_movie_ids)
  with GetMovie show ?thesis by (simp add: handle_def)
next
  case (PutMovie s)
  have "\<forall>u\<in>set (snd (protected J env now req (put_movie s (body req)) us)). distinct_ids u"
    by (rule protected_invariant [OF inv]) (simp add: distinct_ids_def put_movie_ids)
  with PutMovie show ?thesis by (simp add: handle_def)
next
  case (PatchMovie s)
  have "\<forall>u\<in>set (snd (protected J env now req (patch_movie s (body req)) us)). distinct_ids u"
    by (rule protected_invariant [OF inv]) (simp add: distinct_ids_def patch_movie_ids)
  with PatchMovie show ?thesis by (simp add: handle_def)
next
  case (DeleteMovie s)
  have "\<forall>u\<in>set (snd (protected J env now req (delete_movie s) us)). distinct_ids u"
    by (rule protected_invariant [OF inv]) (rule delete_movie_distinct)
  with DeleteMovie show ?thesis by (simp add: handle_def)
next
  case Unmatched
  with inv show ?thesis by (simp add: handle_def)
qed

lemma run_distinct:
  "\<forall>u\<in>set us. distinct_ids u \<Longrightarrow> draws_new_ids J env us es \<Longrightarrow>
   \<forall>u\<in>set (run J env us es). distinct_ids u"
proof (induction es arbitrary: us)
  case Nil
  then show ?case by simp
next
  case (Cons e es)
  obtain now rnd req where e: "e = (now, rnd, req)"
    by (cases e)
  from Cons.prems have new: "draws_new_id J env us (now, rnd, req)"
    and rest: "draws_new_ids J env (snd (handle J env now rnd req us)) es"
    by (simp_all add: e)
  from Cons.prems(1) new have "\<forall>u\<in>set (snd (handle J env now rnd req us)). distinct_ids u"
    by (rule handle_distinct)
  from Cons.IH [OF this rest] show ?case
    by (simp add: e)
qed

subsection \<open>Credentials are fixed, and the guard reads only them\<close>

lemma list_movies_creds: "credentials (snd (list_movies q u)) = credentials u"
  by (simp add: list_movies_def)

lemma create_movie_creds: "credentials (snd (create_movie now rnd b u)) = credentials u"
  by (simp add: create_movie_def credentials_def Let_def)

lemma get_movie_creds: "credentials (snd (get_movie s u)) = credentials u"
  by (simp add: get_movie_def split: option.splits)

lemma put_movie_creds: "credentials (snd (put_movie s b u)) = credentials u"
  by (simp add: put_movie_def credentials_def Let_def split: option.splits)

lemma patch_movie_creds: "credentials (snd (patch_movie s b u)) = credentials u"
  by (simp add: patch_movie_def credentials_def Let_def split: option.splits)

lemma delete_movie_creds: "credentials (snd (delete_movie s u)) = credentials u"
  by (simp add: delete_movie_def credentials_def Let_def)

lemma protected_creds:
  assumes "\<And>u. credentials (snd (h u)) = credentials u"
  shows "map credentials (snd (protected J env now req h us)) = map credentials us"
  using assms by (simp add: protected_def map_update_same split: sum.splits)

lemma handle_creds: "map credentials (snd (handle J env now rnd req us)) = map credentials us"
  by (cases "route req")
    (simp_all add: handle_def protected_creds list_movies_creds create_movie_creds get_movie_creds
      put_movie_creds patch_movie_creds delete_movie_creds)

lemma run_creds: "map credentials (run J env us es) = map credentials us"
proof (induction es arbitrary: us)
  case Nil
  show ?case by simp
next
  case (Cons e es)
  obtain now rnd req where e: "e = (now, rnd, req)"
    by (cases e)
  show ?case
    by (simp add: e Cons.IH handle_creds)
qed

lemma creds_uid: "map credentials us = map credentials vs \<Longrightarrow> map uid us = map uid vs"
proof -
  assume "map credentials us = map credentials vs"
  then have "map fst (map credentials us) = map fst (map credentials vs)"
    by simp
  then show ?thesis
    by (simp add: credentials_def comp_def)
qed

lemma auth_cong:
  assumes "map credentials us = map credentials vs"
  shows "authenticateToken J env now h us = authenticateToken J env now h vs"
proof -
  have eq: "find_idx (\<lambda>u. strict_eq (JNum (Number_int (uid u))) v) us =
        find_idx (\<lambda>u. strict_eq (JNum (Number_int (uid u))) v) vs" for v
    using creds_uid [OF assms]
      find_idx_map [of "\<lambda>n. strict_eq (JNum (Number_int n)) v" uid us]
      find_idx_map [of "\<lambda>n. strict_eq (JNum (Number_int n)) v" uid vs]
    by (simp del: strict_eq.simps)
  show ?thesis
    unfolding authenticateToken_def eq by (rule refl)
qed

lemma acts_as_cong:
  "map credentials us = map credentials vs \<Longrightarrow> acts_as J env us b = acts_as J env vs b"
  by (simp add: acts_as_def auth_cong [of us vs])

subsection \<open>A request touches the record of its user only\<close>

lemma protected_other:
  "authenticateToken J env now (authorization req) us \<noteq> Inr b \<Longrightarrow>
   snd (protected J env now req h us) ! b = us ! b"
  by (auto simp: protected_def split: sum.splits)

lemma handle_other:
  assumes "\<not> acts_as J env us b (now, rnd, req)"
  shows "snd (handle J env now rnd req us) ! b = us ! b"
proof (cases "route req = PostLogin \<or> route req = Unmatched")
  case True
  then show ?thesis
    by (auto simp: handle_def)
next
  case False
  with assms have "authenticateToken J env now (authorization req) us \<noteq> Inr b"
    by (simp add: acts_as_def)
  then show ?thesis
    by (cases "route req") (simp_all add: handle_def protected_other)
qed

lemma protected_same:
  assumes "authenticateToken J env now (authorization req) us = Inr b"
      and "map credentials us = map credentials vs"
      and "us ! b = vs ! b"
  shows "fst (protected J env now req h us) = fst (protected J env now req h vs) \<and>
         snd (protected J env now req h us) ! b = snd (protected J env now req h vs) ! b"
proof -
  have b: "b < length us"
    using assms(1) by (rule auth_index_less)
  have "length us = length vs"
    using assms(2) by (rule map_eq_imp_length_eq)
  with b assms auth_cong [OF assms(2), of J env now "authorization req"] show ?thesis
    by (simp add: protected_def)
qed

lemma handle_same:
  assumes "acts_as J env us b (now, rnd, req)"
      and "map credentials us = map credentials vs"
      and "us ! b = vs ! b"
  shows "fst (handle J env now rnd req us) = fst (handle J env now rnd req vs) \<and>
         snd (handle J env now rnd req us) ! b = snd (handle J env now rnd req vs) ! b"
proof -
  from assms(1) have a: "authenticateToken J env now (authorization req) us = Inr b"
    and r: "route req \<noteq> PostLogin" "route req \<noteq> Unmatched"
    by (simp_all add: acts_as_def)
  from r show ?thesis
    by (cases "route req") (simp_all add: handle_def protected_same [OF a assms(2,3)])
qed

lemma run_purge:
  assumes "map credentials us = map credentials vs"
      and "us ! b = vs ! b"
  shows "run J env us es ! b = run J env vs (filter (acts_as J env us b) es) ! b"
  using assms
proof (induction es arbitrary: us vs)
  case Nil
  then show ?case by simp
next
  case (Cons e es)
  obtain now rnd req where e: "e = (now, rnd, req)"
    by (cases e)
  let ?us = "snd (handle J env now rnd req us)"
  let ?vs = "snd (handle J env now rnd req vs)"
  have us: "map credentials ?us = map credentials us"
    by (rule handle_creds)
  have p: "acts_as J env ?us b = acts_as J env us b"
    using us by (rule acts_as_cong)
  show ?case
  proof (cases "acts_as J env us b (now, rnd, req)")
    case True
    have "map credentials ?us = map credentials ?vs"
      using Cons.prems(1) by (simp add: handle_creds)
    moreover have "?us ! b = ?vs ! b"
      using handle_same [OF True Cons.prems] by simp
    ultimately have "run J env ?us es ! b = run J env ?vs (filter (acts_as J env ?us b) es) ! b"
      by (rule Cons.IH)
    with True show ?thesis
      by (simp add: e p)
  next
    case False
    have "map credentials ?us = map credentials vs"
      using Cons.prems(1) by (simp add: handle_creds)
    moreover have "?us ! b = vs ! b"
      using handle_other [OF False] Cons.prems(2) by simp
    ultimately have "run J env ?us es ! b = run J env vs (filter (acts_as J env ?us b) es) ! b"
      by (rule Cons.IH)
    with False show ?thesis
      by (simp add: e p)
  qed
qed

subsection \<open>The two users of the table\<close>

lemma bearer_token_Bearer:
  assumes "tok \<noteq> []" and "CHR '' '' \<notin> set tok"
  shows "bearer_token (Some (''Bearer '' @ tok)) = Some tok"
proof -
  have "CHR '' '' \<notin> set ''Bearer''"
    by simp
  from bearer_token_scheme [OF this, of tok] assms show ?thesis
    by (simp add: js_split_no_space)
qed

lemma two_users:
  assumes "map credentials us = map credentials users"
  obtains a b where "us = [a, b]"
    and "credentials a = (1, ''Ashwanth'', ''kok123'')"
    and "credentials b = (2, ''alice'', ''123'')"
  using assms by (auto simp: users_def credentials_def map_eq_Cons_conv)

lemma Number_int_eq [simp]: "num_eq (Number_int x) (Number_int y) \<longleftrightarrow> x = y"
  by (simp add: num_eq_def Number_int_def)

subsection \<open>First matches, creating requests, and what the guard settles\<close>

lemma find_idx_first:
  "j < length xs \<Longrightarrow> P (xs ! j) \<Longrightarrow> \<forall>k<j. \<not> P (xs ! k) \<Longrightarrow> find_idx P xs = Some j"
proof (induction xs arbitrary: j)
  case Nil
  then show ?case by simp
next
  case (Cons x xs)
  show ?case
  proof (cases j)
    case 0
    with Cons.prems show ?thesis by simp
  next
    case (Suc n)
    with Cons.prems have "\<not> P x"
      by auto
    moreover from Suc Cons.prems have "find_idx P xs = Some n"
      by (intro Cons.IH) auto
    ultimately show ?thesis
      by (simp add: Suc)
  qed
qed

lemma find_movie_first:
  "j < length ms \<Longrightarrow> num_eq (mid (ms ! j)) n \<Longrightarrow> \<forall>k<j. \<not> num_eq (mid (ms ! k)) n \<Longrightarrow>
   find_movie n ms = Some j"
  unfolding find_movie_def by (rule find_idx_first)

lemma find_movie_SomeD:
  "find_movie n ms = Some j \<Longrightarrow>
   j < length ms \<and> num_eq (mid (ms ! j)) n \<and> (\<forall>k<j. \<not> num_eq (mid (ms ! k)) n)"
  unfolding find_movie_def by (rule find_idx_SomeD)

lemma creates_for_step:
  assumes "creates_for J env us i (now, rnd, req)"
  shows "\<exists>m. mid m = generateId now rnd \<and>
           snd (handle J env now rnd req us) = us[i := (us ! i)\<lparr>movies := movies (us ! i) @ [m]\<rparr>]"
proof -
  let ?m = "\<lparr>mid = generateId now rnd,
             movietitle = get_prop (or_empty (body req)) ''movietitle'',
             language = get_prop (or_empty (body req)) ''language'',
             watched = (if strict_eq (get_prop (or_empty (body req)) ''watched'') JUndefined then JBool False
                        else JBool (truthy (get_prop (or_empty (body req)) ''watched'')))\<rparr>"
  from assms have "snd (handle J env now rnd req us) = us[i := (us ! i)\<lparr>movies := movies (us ! i) @ [?m]\<rparr>]"
    by (simp add: creates_for_def handle_def protected_def create_movie_def Let_def)
  moreover have "mid ?m = generateId now rnd"
    by simp
  ultimately show ?thesis
    by blast
qed

lemma guard_answers:
  assumes "guarded req"
      and "authenticateToken J env now (authorization req) us = Inl res"
  shows "handle J env now rnd req us = (res, us)"
  using assms by (cases "route req") (simp_all add: guarded_def handle_def protected_def)


section \<open>Listing with a status filter\<close>

text \<open>
  C5. For a request that passes the guard as the user at position \<open>i\<close>, \<open>GET /movies\<close>
  answers 200 and leaves the table as it is. The list returned is a subsequence of the
  stored one: the whole sequence when \<open>status\<close> is absent, the entries whose \<open>watched\<close> is
  \<open>true\<close> for \<open>watched\<close>, those whose \<open>watched\<close> is \<open>false\<close> for \<open>unwatched\<close>, and the
  whole sequence for every other value.
\<close>

theorem list_with_status_filter:
  assumes "route req = GetMovies"
      and "authenticateToken J env now (authorization req) us = Inr i"
  shows "\<exists>res. handle J env now rnd req us = ((200, MovieList res), us) \<and>
           subseq res (movies (us ! i)) \<and>
           (query_status req = JUndefined \<longrightarrow> res = movies (us ! i)) \<and>
           (query_status req = JStr ''watched'' \<longrightarrow>
              res = filter (\<lambda>m. watched m = JBool True) (movies (us ! i))) \<and>
           (query_status req = JStr ''unwatched'' \<longrightarrow>
              res = filter (\<lambda>m. watched m = JBool False) (movies (us ! i))) \<and>
           (query_status req \<noteq> JStr ''watched'' \<and> query_status req \<noteq> JStr ''unwatched'' \<longrightarrow>
              res = movies (us ! i))"
  using assms by (simp add: handle_def protected_def list_movies_def)

theorem list_with_status_filter_witness:
  "route (bearer ''h.2.s'' GetMovies (JStr ''watched'') JUndefined) = GetMovies \<and>
   authenticateToken stub_jwt None 1700000000005
     (authorization (bearer ''h.2.s'' GetMovies (JStr ''watched'') JUndefined)) users2 = Inr 1 \<and>
   handle stub_jwt None 1700000000005 0 (bearer ''h.2.s'' GetMovies (JStr ''watched'') JUndefined) users2 =
     ((200, MovieList [m_dune]), users2)"
proof -
  let ?req = "bearer ''h.2.s'' GetMovies (JStr ''watched'') JUndefined"
  have r: "route ?req = GetMovies"
    by (simp add: bearer_def)
  have a: "authenticateToken stub_jwt None 1700000000005 (authorization ?req) users2 = Inr 1"
    by (simp add: run_defs)
  have q: "query_status ?req = JStr ''watched''"
    by (simp add: bearer_def)
  have m: "filter (\<lambda>m. watched m = JBool True) (movies (users2 ! 1)) = [m_dune]"
    by (simp add: users2_def m_inception_def m_dune_def)
  from list_with_status_filter [OF r a, of 0] q m r a show ?thesis
    by auto
qed


section \<open>Ids that are not numbers\<close>

text \<open>
  C8. When the path id coerces to NaN, \<open>GET\<close>, \<open>PUT\<close>, \<open>PATCH\<close> and \<open>DELETE\<close> on
  \<open>/movies/:id\<close> all answer 404 "Movie not found", and the table is unchanged.
\<close>

theorem non_numeric_id_not_found:
  assumes "Number_str s = NaN"
      and "route req \<in> {GetMovie s, PutMovie s, PatchMovie s, DeleteMovie s}"
      and "authenticateToken J env now (authorization req) us = Inr i"
  shows "handle J env now rnd req us = ((404, Message ''Movie not found''), us)"
  using assms
  by (auto simp: handle_def protected_def get_movie_def put_movie_def patch_movie_def
      delete_movie_def)

theorem non_numeric_id_not_found_witness:
  "Number_str (utf16 ''12abc'') = NaN \<and>
   authenticateToken stub_jwt None 1700000000005
     (authorization (bearer ''h.2.s'' (DeleteMovie (utf16 ''12abc'')) JUndefined JUndefined)) users2 = Inr 1 \<and>
   handle stub_jwt None 1700000000005 0
     (bearer ''h.2.s'' (DeleteMovie (utf16 ''12abc'')) JUndefined JUndefined) users2 =
     ((404, Message ''Movie not found''), users2) \<and>
   handle stub_jwt None 1700000000005 0
     (bearer ''h.2.s'' (PutMovie (utf16 ''12abc'')) JUndefined inception) users2 =
     ((404, Message ''Movie not found''), users2)"
proof -
  have n: "Number_str (utf16 ''12abc'') = NaN"
    by code_simp
  have a: "authenticateToken stub_jwt None 1700000000005
      (authorization (bearer ''h.2.s'' r JUndefined b)) users2 = Inr 1" for r b
    by (simp add: run_defs)
  have r: "route (bearer ''h.2.s'' r JUndefined b) = r" for r b
    by (simp add: bearer_def)
  show ?thesis
    using n a
      non_numeric_id_not_found [OF n _ a, of "DeleteMovie (utf16 ''12abc'')" JUndefined 0]
      non_numeric_id_not_found [OF n _ a, of "PutMovie (utf16 ''12abc'')" inception 0]
    by (simp add: r)
qed

section \<open>The token is the second segment of the header\<close>



section \<open>Partial update\<close>

text \<open>
  C6. Let a request pass the guard as the user at position \<open>i\<close>, and let \<open>j\<close> be the first
  position in that user's sequence whose id equals the number the path id coerces to. Then
  \<open>PATCH /movies/:id\<close> answers 200 with the updated movie and replaces position \<open>j\<close> of that
  sequence, nothing else: the id stays, each of \<open>movietitle\<close>, \<open>language\<close> and \<open>watched\<close>
  changes when the body has it and keeps its value when the body lacks it (a present
  \<open>watched\<close> is stored as a boolean), and with none of the three in the body the movie and
  the table are unchanged.
\<close>

theorem patch_present_fields_only:
  assumes "route req = PatchMovie s"
      and "authenticateToken J env now (authorization req) us = Inr i"
      and "j < length (movies (us ! i))"
      and "num_eq (mid (movies (us ! i) ! j)) (Number_str s)"
      and "\<forall>k<j. \<not> num_eq (mid (movies (us ! i) ! k)) (Number_str s)"
  shows "\<exists>m'. handle J env now rnd req us =
             ((200, OneMovie m'), us[i := (us ! i)\<lparr>movies := (movies (us ! i))[j := m']\<rparr>]) \<and>
           mid m' = mid (movies (us ! i) ! j) \<and>
           movietitle m' =
             (if get_prop (or_empty (body req)) ''movietitle'' = JUndefined
              then movietitle (movies (us ! i) ! j)
              else get_prop (or_empty (body req)) ''movietitle'') \<and>
           language m' =
             (if get_prop (or_empty (body req)) ''language'' = JUndefined
              then language (movies (us ! i) ! j)
              else get_prop (or_empty (body req)) ''language'') \<and>
           watched m' =
             (if get_prop (or_empty (body req)) ''watched'' = JUndefined
              then watched (movies (us ! i) ! j)
              else JBool (truthy (get_prop (or_empty (body req)) ''watched''))) \<and>
           (get_prop (or_empty (body req)) ''movietitle'' = JUndefined \<and>
            get_prop (or_empty (body req)) ''language'' = JUndefined \<and>
            get_prop (or_empty (body req)) ''watched'' = JUndefined \<longrightarrow>
              handle J env now rnd req us = ((200, OneMovie (movies (us ! i) ! j)), us))"
proof -
  from assms(3-5) have "find_movie (Number_str s) (movies (us ! i)) = Some j"
    by (simp add: find_movie_first)
  with assms(1,2) show ?thesis
    by (simp add: handle_def protected_def patch_movie_def Let_def)
qed

theorem patch_present_fields_only_witness:
  "authenticateToken stub_jwt None 1700000000005
     (authorization (bearer ''h.2.s'' (PatchMovie (utf16 ''1700000000777'')) JUndefined
        (JObj [(''watched'', JBool False)]))) users2 = Inr 1 \<and>
   (1::nat) < length (movies (users2 ! 1)) \<and>
   num_eq (mid (movies (users2 ! 1) ! 1)) (Number_str (utf16 ''1700000000777'')) \<and>
   \<not> num_eq (mid (movies (users2 ! 1) ! 0)) (Number_str (utf16 ''1700000000777'')) \<and>
   handle stub_jwt None 1700000000005 0
     (bearer ''h.2.s'' (PatchMovie (utf16 ''1700000000777'')) JUndefined (JObj [(''watched'', JBool False)]))
     users2 =
     ((200, OneMovie (m_dune\<lparr>watched := JBool False\<rparr>)),
      users2[1 := (users2 ! 1)\<lparr>movies := [m_inception, m_dune\<lparr>watched := JBool False\<rparr>]\<rparr>]) \<and>
   handle stub_jwt None 1700000000005 0
     (bearer ''h.2.s'' (PatchMovie (utf16 ''1700000000777'')) JUndefined (JObj [])) users2 =
     ((200, OneMovie m_dune), users2)"
proof -
  let ?req = "\<lambda>b. bearer ''h.2.s'' (PatchMovie (utf16 ''1700000000777'')) JUndefined b"
  have r: "route (?req b) = PatchMovie (utf16 ''1700000000777'')" for b
    by (simp add: bearer_def)
  have a: "authenticateToken stub_jwt None 1700000000005 (authorization (?req b)) users2 = Inr 1" for b
    by (simp add: run_defs)
  have n: "Number_str (utf16 ''1700000000777'') = Fin 1700000000777"
    by code_simp
  have m [simp]: "movies (users2 ! 1) = [m_inception, m_dune]" "movies (users2 ! Suc 0) = [m_inception, m_dune]"
    by (simp_all add: users2_def)
  have j1: "(1::nat) < length (movies (users2 ! 1))"
    by simp
  have j2: "num_eq (mid (movies (users2 ! 1) ! 1)) (Number_str (utf16 ''1700000000777''))"
    by (simp add: n m_dune_def num_eq_def)
  have j0: "\<not> num_eq (mid (movies (users2 ! 1) ! 0)) (Number_str (utf16 ''1700000000777''))"
    by (simp add: n m_inception_def num_eq_def)
  then have j3: "\<forall>k<1. \<not> num_eq (mid (movies (users2 ! 1) ! k)) (Number_str (utf16 ''1700000000777''))"
    by simp
  from patch_present_fields_only [OF r [of "JObj [(''watched'', JBool False)]"] a j1 j2 j3, where rnd = 0]
  obtain m' where m':
    "handle stub_jwt None 1700000000005 0 (?req (JObj [(''watched'', JBool False)])) users2 =
       ((200, OneMovie m'), users2[1 := (users2 ! 1)\<lparr>movies := (movies (users2 ! 1))[1 := m']\<rparr>])"
    "mid m' = mid m_dune" "movietitle m' = movietitle m_dune"
    "language m' = language m_dune" "watched m' = JBool False"
    by (auto simp: bearer_def or_empty_def)
  from m'(2-5) have "m' = m_dune\<lparr>watched := JBool False\<rparr>"
    by simp
  moreover have "handle stub_jwt None 1700000000005 0 (?req (JObj [])) users2 = ((200, OneMovie m_dune), users2)"
    using patch_present_fields_only [OF r [of "JObj []"] a j1 j2 j3, where rnd = 0]
    by (auto simp: bearer_def or_empty_def)
  ultimately show ?thesis
    using m'(1) a j1 j2 j0 by (simp add: bearer_def)
qed

section \<open>Deleting\<close>

text \<open>
  C7. For a request that passes the guard as the user at position \<open>i\<close>: when the id
  matches a stored movie, \<open>DELETE /movies/:id\<close> answers 204 with no body, keeps exactly the
  movies whose id does not match, and a later \<open>GET /movies/:id\<close> of the same user for the
  same id answers 404; when the id matches none, it answers 404 and the table is unchanged.
\<close>

theorem delete_removes_entry:
  assumes "route req = DeleteMovie s"
      and "authenticateToken J env now (authorization req) us = Inr i"
  shows "((\<exists>m\<in>set (movies (us ! i)). num_eq (mid m) (Number_str s)) \<longrightarrow>
            handle J env now rnd req us =
              ((204, NoBody),
               us[i := (us ! i)\<lparr>movies :=
                    filter (\<lambda>m. \<not> num_eq (mid m) (Number_str s)) (movies (us ! i))\<rparr>]) \<and>
            (\<forall>now' rnd' req'.
               route req' = GetMovie s \<and>
               authenticateToken J env now' (authorization req') (snd (handle J env now rnd req us)) = Inr i \<longrightarrow>
               fst (handle J env now' rnd' req' (snd (handle J env now rnd req us))) =
                 (404, Message ''Movie not found''))) \<and>
         ((\<forall>m\<in>set (movies (us ! i)). \<not> num_eq (mid m) (Number_str s)) \<longrightarrow>
            handle J env now rnd req us = ((404, Message ''Movie not found''), us))"
proof -
  let ?keep = "filter (\<lambda>m. \<not> num_eq (mid m) (Number_str s)) (movies (us ! i))"
  have i: "i < length us"
    using assms(2) by (rule auth_index_less)
  have del: "handle J env now rnd req us =
      (if length (movies (us ! i)) = length ?keep then (404, Message ''Movie not found'') else (204, NoBody),
       us[i := (us ! i)\<lparr>movies := ?keep\<rparr>])"
    using assms by (simp add: handle_def protected_def delete_movie_def Let_def)
  have absent: "handle J env now rnd req us = ((404, Message ''Movie not found''), us)"
    if "\<forall>m\<in>set (movies (us ! i)). \<not> num_eq (mid m) (Number_str s)"
    using that del by simp
  have present: "handle J env now rnd req us = ((204, NoBody), us[i := (us ! i)\<lparr>movies := ?keep\<rparr>])"
    if "\<exists>m\<in>set (movies (us ! i)). num_eq (mid m) (Number_str s)"
  proof -
    from that have "length ?keep \<noteq> length (movies (us ! i))"
      by (auto simp: filter_length_eq_iff)
    with del show ?thesis by auto
  qed
  have get: "fst (handle J env now' rnd' req' (snd (handle J env now rnd req us))) =
      (404, Message ''Movie not found'')"
    if "route req' = GetMovie s"
      and "authenticateToken J env now' (authorization req') (snd (handle J env now rnd req us)) = Inr i"
    for now' rnd' req'
    using that i unfolding del by (simp add: handle_def protected_def get_movie_def)
  from absent present get show ?thesis
    by blast
qed

theorem delete_removes_entry_witness:
  "route (bearer ''h.2.s'' (DeleteMovie (utf16 ''1700000000777'')) JUndefined JUndefined) =
     DeleteMovie (utf16 ''1700000000777'') \<and>
   authenticateToken stub_jwt None 1700000000005
     (authorization (bearer ''h.2.s'' (DeleteMovie (utf16 ''1700000000777'')) JUndefined JUndefined)) users2 = Inr 1 \<and>
   (\<exists>m\<in>set (movies (users2 ! 1)). num_eq (mid m) (Number_str (utf16 ''1700000000777''))) \<and>
   handle stub_jwt None 1700000000005 0 (bearer ''h.2.s'' (DeleteMovie (utf16 ''1700000000777'')) JUndefined JUndefined) users2 =
     ((204, NoBody), users2[1 := (users2 ! 1)\<lparr>movies := [m_inception]\<rparr>]) \<and>
   fst (handle stub_jwt None 1700000000009 0 (bearer ''h.2.s'' (GetMovie (utf16 ''1700000000777'')) JUndefined JUndefined)
     (snd (handle stub_jwt None 1700000000005 0
        (bearer ''h.2.s'' (DeleteMovie (utf16 ''1700000000777'')) JUndefined JUndefined) users2))) =
     (404, Message ''Movie not found'') \<and>
   list_all (\<lambda>m. \<not> num_eq (mid m) (Number_str (utf16 ''42''))) (movies (users2 ! 1)) \<and>
   handle stub_jwt None 1700000000005 0 (bearer ''h.2.s'' (DeleteMovie (utf16 ''42'')) JUndefined JUndefined) users2 =
     ((404, Message ''Movie not found''), users2)"
proof -
  let ?del = "\<lambda>s. bearer ''h.2.s'' (DeleteMovie s) JUndefined JUndefined"
  let ?get = "bearer ''h.2.s'' (GetMovie (utf16 ''1700000000777'')) JUndefined JUndefined"
  have r: "route (?del s) = DeleteMovie s" for s
    by (simp add: bearer_def)
  have a: "authenticateToken stub_jwt None 1700000000005 (authorization (?del s)) users2 = Inr 1" for s
    by (simp add: run_defs)
  have n: "Number_str (utf16 ''1700000000777'') = Fin 1700000000777" "Number_str (utf16 ''42'') = Fin 42"
    by code_simp+
  have m [simp]: "movies (users2 ! 1) = [m_inception, m_dune]" "movies (users2 ! Suc 0) = [m_inception, m_dune]"
    by (simp_all add: users2_def)
  have p: "\<exists>m\<in>set (movies (users2 ! 1)). num_eq (mid m) (Number_str (utf16 ''1700000000777''))"
    by (simp add: m n m_dune_def num_eq_def)
  have q: "\<forall>m\<in>set (movies (users2 ! 1)). \<not> num_eq (mid m) (Number_str (utf16 ''42''))"
    by (simp add: m n m_dune_def m_inception_def num_eq_def)
  have k: "filter (\<lambda>m. \<not> num_eq (mid m) (Number_str (utf16 ''1700000000777''))) (movies (users2 ! 1))
      = [m_inception]"
    by (simp add: m n m_dune_def m_inception_def num_eq_def)
  have g: "route ?get = GetMovie (utf16 ''1700000000777'')"
    by (simp add: bearer_def)
  have d: "handle stub_jwt None 1700000000005 0 (?del (utf16 ''1700000000777'')) users2 =
      ((204, NoBody), users2[1 := (users2 ! 1)\<lparr>movies := [m_inception]\<rparr>])"
    using delete_removes_entry [OF r [of "utf16 ''1700000000777''"] a, where rnd = 0] p unfolding k by blast
  have a': "authenticateToken stub_jwt None 1700000000009 (authorization ?get)
      (snd (handle stub_jwt None 1700000000005 0 (?del (utf16 ''1700000000777'')) users2)) = Inr 1"
    unfolding d by (simp add: run_defs)
  from delete_removes_entry [OF r [of "utf16 ''1700000000777''"] a, where rnd = 0] p g a'
  have "fst (handle stub_jwt None 1700000000009 0 ?get (snd (handle stub_jwt None 1700000000005 0 (?del (utf16 ''1700000000777'')) users2))) =
      (404, Message ''Movie not found'')"
    by blast
  moreover have "handle stub_jwt None 1700000000005 0 (?del (utf16 ''42'')) users2 = ((404, Message ''Movie not found''), users2)"
    using delete_removes_entry [OF r [of "utf16 ''42''"] a, where rnd = 0] q by blast
  moreover from q have "list_all (\<lambda>m. \<not> num_eq (mid m) (Number_str (utf16 ''42''))) (movies (users2 ! 1))"
    by (simp only: list_all_iff)
  ultimately show ?thesis
    using d r a p by simp
qed

section \<open>Isolation of the watchlists\<close>

text \<open>
  C3. Let \<open>b\<close> be a position in the user table. After any sequence of requests, the record
  of user \<open>b\<close> is what it would be had only the requests that pass the guard as \<open>b\<close> been
  made, and the answer to any request that passes the guard as \<open>b\<close> is the same in both
  cases: what other users create, change or delete never shows in the results of \<open>b\<close>,
  whatever id the request of \<open>b\<close> names. A single request that does not pass the guard as
  \<open>b\<close> leaves the record of \<open>b\<close> unchanged.
\<close>

theorem watchlists_isolated:
  "run J env us es ! b = run J env us (filter (acts_as J env us b) es) ! b \<and>
   (acts_as J env us b (now, rnd, req) \<longrightarrow>
      fst (handle J env now rnd req (run J env us es)) =
      fst (handle J env now rnd req (run J env us (filter (acts_as J env us b) es)))) \<and>
   (\<not> acts_as J env us b (now, rnd, req) \<longrightarrow> snd (handle J env now rnd req us) ! b = us ! b)"
proof -
  let ?own = "filter (acts_as J env us b) es"
  have state: "run J env us es ! b = run J env us ?own ! b"
    by (rule run_purge) simp_all
  have "fst (handle J env now rnd req (run J env us es)) = fst (handle J env now rnd req (run J env us ?own))"
    if "acts_as J env us b (now, rnd, req)"
  proof -
    have "acts_as J env (run J env us es) b = acts_as J env us b"
      by (rule acts_as_cong) (rule run_creds)
    with that have "acts_as J env (run J env us es) b (now, rnd, req)"
      by simp
    moreover have "map credentials (run J env us es) = map credentials (run J env us ?own)"
      by (simp add: run_creds)
    ultimately show ?thesis
      using state handle_same by blast
  qed
  with state handle_other show ?thesis
    by blast
qed

theorem watchlists_isolated_witness:
  "acts_as stub_jwt None users 1
     (1700000000009, 0, bearer ''h.2.s'' (GetMovie (utf16 ''1700000000751'')) JUndefined JUndefined) \<and>
   \<not> acts_as stub_jwt None users 1
     (1700000000001, 3 / 4, bearer ''h.1.s'' PostMovies JUndefined dune_yes) \<and>
   filter (acts_as stub_jwt None users 1) session = [session ! 0, session ! 2] \<and>
   run stub_jwt None users session ! 1 = run stub_jwt None users [session ! 0, session ! 2] ! 1 \<and>
   fst (handle stub_jwt None 1700000000009 0
     (bearer ''h.2.s'' (GetMovie (utf16 ''1700000000751'')) JUndefined JUndefined)
     (run stub_jwt None users session)) = (404, Message ''Movie not found'') \<and>
   snd (handle stub_jwt None 1700000000001 (3 / 4) (bearer ''h.1.s'' PostMovies JUndefined dune_yes) users) ! 1 =
     users ! 1"
proof -
  let ?get = "bearer ''h.2.s'' (GetMovie (utf16 ''1700000000751'')) JUndefined JUndefined"
  let ?post = "bearer ''h.1.s'' PostMovies JUndefined dune_yes"
  have g: "acts_as stub_jwt None users 1 (1700000000009, 0, ?get)"
    by (simp add: acts_as_def run_defs)
  have p: "\<not> acts_as stub_jwt None users 1 (1700000000001, 3 / 4, ?post)"
    by (simp add: acts_as_def run_defs)
  have f: "filter (acts_as stub_jwt None users 1) session = [session ! 0, session ! 2]"
    by code_simp
  have r: "fst (handle stub_jwt None 1700000000009 0 ?get (run stub_jwt None users [session ! 0, session ! 2])) =
      (404, Message ''Movie not found'')"
    by code_simp
  note own = watchlists_isolated [of stub_jwt None users session 1 1700000000009 0 ?get, unfolded f]
  from own have a: "run stub_jwt None users session ! 1 = run stub_jwt None users [session ! 0, session ! 2] ! 1"
    by (rule conjunct1)
  from own g have "fst (handle stub_jwt None 1700000000009 0 ?get (run stub_jwt None users session)) =
      fst (handle stub_jwt None 1700000000009 0 ?get (run stub_jwt None users [session ! 0, session ! 2]))"
    by blast
  then have b: "fst (handle stub_jwt None 1700000000009 0 ?get (run stub_jwt None users session)) =
      (404, Message ''Movie not found'')"
    using r by (rule trans)
  from watchlists_isolated [of stub_jwt None users session 1 1700000000001 "3 / 4" ?post] p
  have c: "snd (handle stub_jwt None 1700000000001 (3 / 4) ?post users) ! 1 = users ! 1"
    by blast
  from g p f a b c show ?thesis
    by (intro conjI)
qed

section \<open>The watched flag is a boolean\<close>

text \<open>
  C9. After every sequence of requests on the initial table, the \<open>watched\<close> field of every
  movie of every user is a boolean. A successful create appends the movie it answers with,
  whose \<open>watched\<close> is \<open>false\<close> when the body has none and the truthiness of the value
  otherwise; a successful replace puts the movie it answers with in the place of the first
  movie with the id asked for, its \<open>watched\<close> the truthiness of the value; a successful
  patch with a \<open>watched\<close> in the body does the same.
\<close>

theorem watched_always_boolean:
  "(\<forall>u\<in>set (run J env users es). \<forall>m\<in>set (movies u). is_bool (watched m)) \<and>
   (route req = PostMovies \<and> authenticateToken J env now (authorization req) us = Inr i \<and>
    fst (handle J env now rnd req us) = (201, OneMovie m) \<longrightarrow>
      snd (handle J env now rnd req us) = us[i := (us ! i)\<lparr>movies := movies (us ! i) @ [m]\<rparr>] \<and>
      watched m = (if get_prop (or_empty (body req)) ''watched'' = JUndefined then JBool False
                   else JBool (truthy (get_prop (or_empty (body req)) ''watched'')))) \<and>
   (route req = PutMovie s \<and> authenticateToken J env now (authorization req) us = Inr i \<and>
    fst (handle J env now rnd req us) = (200, OneMovie m) \<longrightarrow>
      (\<exists>j<length (movies (us ! i)).
          num_eq (mid (movies (us ! i) ! j)) (Number_str s) \<and>
          (\<forall>k<j. \<not> num_eq (mid (movies (us ! i) ! k)) (Number_str s)) \<and>
          snd (handle J env now rnd req us) = us[i := (us ! i)\<lparr>movies := (movies (us ! i))[j := m]\<rparr>]) \<and>
      watched m = JBool (truthy (get_prop (or_empty (body req)) ''watched''))) \<and>
   (route req = PatchMovie s \<and> authenticateToken J env now (authorization req) us = Inr i \<and>
    fst (handle J env now rnd req us) = (200, OneMovie m) \<and>
    get_prop (or_empty (body req)) ''watched'' \<noteq> JUndefined \<longrightarrow>
      (\<exists>j<length (movies (us ! i)).
          num_eq (mid (movies (us ! i) ! j)) (Number_str s) \<and>
          (\<forall>k<j. \<not> num_eq (mid (movies (us ! i) ! k)) (Number_str s)) \<and>
          snd (handle J env now rnd req us) = us[i := (us ! i)\<lparr>movies := (movies (us ! i))[j := m]\<rparr>]) \<and>
      watched m = JBool (truthy (get_prop (or_empty (body req)) ''watched'')))"
proof -
  have "\<forall>u\<in>set users. all_watched_bool u"
    by (simp add: users_def all_watched_bool_def)
  then have "\<forall>u\<in>set (run J env users es). all_watched_bool u"
    by (rule run_bool)
  then have inv: "\<forall>u\<in>set (run J env users es). \<forall>m\<in>set (movies u). is_bool (watched m)"
    by (simp add: all_watched_bool_def)
  have c: "snd (handle J env now rnd req us) = us[i := (us ! i)\<lparr>movies := movies (us ! i) @ [m]\<rparr>] \<and>
      watched m = (if get_prop (or_empty (body req)) ''watched'' = JUndefined then JBool False
                   else JBool (truthy (get_prop (or_empty (body req)) ''watched'')))"
    if "route req = PostMovies" "authenticateToken J env now (authorization req) us = Inr i"
      "fst (handle J env now rnd req us) = (201, OneMovie m)"
    using that by (auto simp: handle_def protected_def create_movie_def Let_def split: if_splits)
  have p: "(\<exists>j<length (movies (us ! i)).
          num_eq (mid (movies (us ! i) ! j)) (Number_str s) \<and>
          (\<forall>k<j. \<not> num_eq (mid (movies (us ! i) ! k)) (Number_str s)) \<and>
          snd (handle J env now rnd req us) = us[i := (us ! i)\<lparr>movies := (movies (us ! i))[j := m]\<rparr>]) \<and>
      watched m = JBool (truthy (get_prop (or_empty (body req)) ''watched''))"
    if r: "route req = PutMovie s" and a: "authenticateToken J env now (authorization req) us = Inr i"
      and f: "fst (handle J env now rnd req us) = (200, OneMovie m)"
  proof (cases "find_movie (Number_str s) (movies (us ! i))")
    case None
    with r a f show ?thesis
      by (simp add: handle_def protected_def put_movie_def)
  next
    case (Some j)
    note j = find_movie_SomeD [OF Some]
    from r a f Some have "snd (handle J env now rnd req us) =
        us[i := (us ! i)\<lparr>movies := (movies (us ! i))[j := m]\<rparr>] \<and>
      watched m = JBool (truthy (get_prop (or_empty (body req)) ''watched''))"
      by (auto simp: handle_def protected_def put_movie_def Let_def split: if_splits)
    with j show ?thesis
      by blast
  qed
  have q: "(\<exists>j<length (movies (us ! i)).
          num_eq (mid (movies (us ! i) ! j)) (Number_str s) \<and>
          (\<forall>k<j. \<not> num_eq (mid (movies (us ! i) ! k)) (Number_str s)) \<and>
          snd (handle J env now rnd req us) = us[i := (us ! i)\<lparr>movies := (movies (us ! i))[j := m]\<rparr>]) \<and>
      watched m = JBool (truthy (get_prop (or_empty (body req)) ''watched''))"
    if r: "route req = PatchMovie s" and a: "authenticateToken J env now (authorization req) us = Inr i"
      and f: "fst (handle J env now rnd req us) = (200, OneMovie m)"
      and w: "get_prop (or_empty (body req)) ''watched'' \<noteq> JUndefined"
  proof (cases "find_movie (Number_str s) (movies (us ! i))")
    case None
    with r a f show ?thesis
      by (simp add: handle_def protected_def patch_movie_def)
  next
    case (Some j)
    note j = find_movie_SomeD [OF Some]
    from r a f w Some have "snd (handle J env now rnd req us) =
        us[i := (us ! i)\<lparr>movies := (movies (us ! i))[j := m]\<rparr>] \<and>
      watched m = JBool (truthy (get_prop (or_empty (body req)) ''watched''))"
      by (auto simp: handle_def protected_def patch_movie_def Let_def split: if_splits)
    with j show ?thesis
      by blast
  qed
  from inv c p q show ?thesis
    by blast
qed

theorem watched_always_boolean_witness:
  "list_all (\<lambda>u. list_all (\<lambda>m. is_bool (watched m)) (movies u)) (run stub_jwt None users session) \<and>
   map (\<lambda>u. map watched (movies u)) (run stub_jwt None users session) = [[JBool False], [JBool True]] \<and>
   handle stub_jwt None 1700000000001 (3 / 4) (bearer ''h.1.s'' PostMovies JUndefined dune_yes) users =
     ((201, OneMovie \<lparr>mid = Fin 1700000000751, movietitle = JStr ''Dune'', language = JStr ''English'',
                      watched = JBool True\<rparr>),
      users[0 := (users ! 0)\<lparr>movies := movies (users ! 0) @
        [\<lparr>mid = Fin 1700000000751, movietitle = JStr ''Dune'', language = JStr ''English'',
          watched = JBool True\<rparr>]\<rparr>]) \<and>
   handle stub_jwt None 1700000000000 (1 / 2) (bearer ''h.2.s'' PostMovies JUndefined inception) users =
     ((201, OneMovie m_inception), users[1 := (users ! 1)\<lparr>movies := movies (users ! 1) @ [m_inception]\<rparr>]) \<and>
   handle stub_jwt None 1700000000005 0
     (bearer ''h.2.s'' (PutMovie (utf16 ''1700000000777'')) JUndefined
        (JObj [(''movietitle'', JStr ''Dune''), (''language'', JStr ''French''), (''watched'', JNull)])) users2 =
     ((200, OneMovie (m_dune\<lparr>language := JStr ''French'', watched := JBool False\<rparr>)),
      users2[1 := (users2 ! 1)\<lparr>movies :=
        [m_inception, m_dune\<lparr>language := JStr ''French'', watched := JBool False\<rparr>]\<rparr>]) \<and>
   handle stub_jwt None 1700000000005 0
     (bearer ''h.2.s'' (PatchMovie (utf16 ''1700000000500'')) JUndefined (JObj [(''watched'', JNum (Fin 1))]))
     users2 =
     ((200, OneMovie (m_inception\<lparr>watched := JBool True\<rparr>)),
      users2[1 := (users2 ! 1)\<lparr>movies := [m_inception\<lparr>watched := JBool True\<rparr>, m_dune]\<rparr>])"
proof -
  let ?post1 = "bearer ''h.1.s'' PostMovies JUndefined dune_yes"
  let ?post2 = "bearer ''h.2.s'' PostMovies JUndefined inception"
  let ?put = "bearer ''h.2.s'' (PutMovie (utf16 ''1700000000777'')) JUndefined
        (JObj [(''movietitle'', JStr ''Dune''), (''language'', JStr ''French''), (''watched'', JNull)])"
  let ?patch = "bearer ''h.2.s'' (PatchMovie (utf16 ''1700000000500'')) JUndefined
        (JObj [(''watched'', JNum (Fin 1))])"
  let ?dune = "\<lparr>mid = Fin 1700000000751, movietitle = JStr ''Dune'', language = JStr ''English'',
                watched = JBool True\<rparr>"
  have a: "authenticateToken stub_jwt None t (authorization (bearer ''h.1.s'' r JUndefined b)) us = Inr 0"
    "authenticateToken stub_jwt None t (authorization (bearer ''h.2.s'' r JUndefined b)) us = Inr 1"
    if "t \<in> {1700000000000, 1700000000001, 1700000000005}" "us \<in> {users, users2}" for t r b us
    using that by (auto simp: run_defs)
  have r: "route (bearer tok r JUndefined b) = r" for tok r b
    by (simp add: bearer_def)
  have f1: "fst (handle stub_jwt None 1700000000001 (3 / 4) ?post1 users) = (201, OneMovie ?dune)"
    by code_simp
  have f2: "fst (handle stub_jwt None 1700000000000 (1 / 2) ?post2 users) = (201, OneMovie m_inception)"
    by code_simp
  have f3: "fst (handle stub_jwt None 1700000000005 0 ?put users2) =
      (200, OneMovie (m_dune\<lparr>language := JStr ''French'', watched := JBool False\<rparr>))"
    by code_simp
  have f4: "fst (handle stub_jwt None 1700000000005 0 ?patch users2) =
      (200, OneMovie (m_inception\<lparr>watched := JBool True\<rparr>))"
    by code_simp
  have s3: "snd (handle stub_jwt None 1700000000005 0 ?put users2) =
      users2[1 := (users2 ! 1)\<lparr>movies :=
        [m_inception, m_dune\<lparr>language := JStr ''French'', watched := JBool False\<rparr>]\<rparr>]"
    by code_simp
  have s4: "snd (handle stub_jwt None 1700000000005 0 ?patch users2) =
      users2[1 := (users2 ! 1)\<lparr>movies := [m_inception\<lparr>watched := JBool True\<rparr>, m_dune]\<rparr>]"
    by code_simp
  note w = watched_always_boolean [of stub_jwt None session]
  from w [of ?post1 1700000000001 users 0 "3 / 4" ?dune] a(1) f1
  have c1: "snd (handle stub_jwt None 1700000000001 (3 / 4) ?post1 users) =
      users[0 := (users ! 0)\<lparr>movies := movies (users ! 0) @ [?dune]\<rparr>]"
    by (simp add: r)
  from w [of ?post2 1700000000000 users 1 "1 / 2" m_inception] a(2) f2
  have c2: "snd (handle stub_jwt None 1700000000000 (1 / 2) ?post2 users) =
      users[1 := (users ! 1)\<lparr>movies := movies (users ! 1) @ [m_inception]\<rparr>]"
    by (simp add: r)
  from w [THEN conjunct1]
  have "list_all (\<lambda>u. list_all (\<lambda>m. is_bool (watched m)) (movies u)) (run stub_jwt None users session)"
    by (simp only: list_all_iff)
  moreover have "map (\<lambda>u. map watched (movies u)) (run stub_jwt None users session) =
      [[JBool False], [JBool True]]"
    by (simp add: session_result)
  ultimately show ?thesis
    using f1 c1 f2 c2 f3 s3 f4 s4 by (simp add: prod_eq_iff)
qed

section \<open>Movie ids within a collection\<close>

text \<open>
  C4, as amended. The ids of every user's movies stay pairwise distinct along every sequence
  of requests in which each request that stores a new movie draws an id that the collection
  of its user does not hold yet. Create itself does not compare the id it draws with the
  stored ones: a single request keeps the ids of a table pairwise distinct exactly when it
  stores no movie or the id it draws is new. Two successive creates by one user append the
  two ids drawn, \<open>Date.now() + Math.floor(Math.random() * 1000)\<close> at each call, so the two
  movies have different ids exactly when the two sums differ.
\<close>

theorem ids_distinct_when_draws_new:
  "((\<forall>u\<in>set us. distinct (map mid (movies u))) \<and> draws_new_ids J env us es \<longrightarrow>
      (\<forall>u\<in>set (run J env us es). distinct (map mid (movies u)))) \<and>
   ((\<forall>u\<in>set us. distinct (map mid (movies u))) \<longrightarrow>
      ((\<forall>u\<in>set (snd (handle J env now rnd req us)). distinct (map mid (movies u))) \<longleftrightarrow>
       draws_new_id J env us (now, rnd, req))) \<and>
   (creates_for J env us i (now1, rnd1, req1) \<and> creates_for J env us i (now2, rnd2, req2) \<longrightarrow>
      map mid (movies (run J env us [(now1, rnd1, req1), (now2, rnd2, req2)] ! i)) =
        map mid (movies (us ! i)) @ [generateId now1 rnd1, generateId now2 rnd2])"
proof -
  have seq: "\<forall>u\<in>set (run J env us es). distinct (map mid (movies u))"
    if "\<forall>u\<in>set us. distinct (map mid (movies u))" "draws_new_ids J env us es"
    using run_distinct [of us J env es] that by (simp add: distinct_ids_def)
  have step: "(\<forall>u\<in>set (snd (handle J env now rnd req us)). distinct (map mid (movies u))) \<longleftrightarrow>
       draws_new_id J env us (now, rnd, req)"
    if inv: "\<forall>u\<in>set us. distinct (map mid (movies u))"
  proof
    assume "draws_new_id J env us (now, rnd, req)"
    with inv show "\<forall>u\<in>set (snd (handle J env now rnd req us)). distinct (map mid (movies u))"
      using handle_distinct [of us J env now rnd req] by (simp add: distinct_ids_def)
  next
    assume after: "\<forall>u\<in>set (snd (handle J env now rnd req us)). distinct (map mid (movies u))"
    have "generateId now rnd \<notin> set (map mid (movies (us ! i)))"
      if c: "creates_for J env us i (now, rnd, req)" for i
    proof
      assume old: "generateId now rnd \<in> set (map mid (movies (us ! i)))"
      from creates_for_step [OF c] obtain m where m: "mid m = generateId now rnd"
        and s: "snd (handle J env now rnd req us) = us[i := (us ! i)\<lparr>movies := movies (us ! i) @ [m]\<rparr>]"
        by blast
      from c have "i < length us"
        by (auto simp: creates_for_def dest: auth_index_less)
      then have "(us ! i)\<lparr>movies := movies (us ! i) @ [m]\<rparr> \<in> set (snd (handle J env now rnd req us))"
        unfolding s by (rule set_update_memI)
      with after have "distinct (map mid (movies (us ! i) @ [m]))"
        by fastforce
      with old m show False
        by simp
    qed
    then show "draws_new_id J env us (now, rnd, req)"
      by (simp add: draws_new_id_def list_all_iff)
  qed
  have twice: "map mid (movies (run J env us [(now1, rnd1, req1), (now2, rnd2, req2)] ! i)) =
        map mid (movies (us ! i)) @ [generateId now1 rnd1, generateId now2 rnd2]"
    if c1: "creates_for J env us i (now1, rnd1, req1)" and c2: "creates_for J env us i (now2, rnd2, req2)"
  proof -
    let ?us1 = "snd (handle J env now1 rnd1 req1 us)"
    from c1 have i: "i < length us"
      by (auto simp: creates_for_def dest: auth_index_less)
    from creates_for_step [OF c1] obtain m1 where m1: "mid m1 = generateId now1 rnd1"
      and s1: "?us1 = us[i := (us ! i)\<lparr>movies := movies (us ! i) @ [m1]\<rparr>]"
      by blast
    have "authenticateToken J env now2 (authorization req2) ?us1 =
        authenticateToken J env now2 (authorization req2) us"
      by (rule auth_cong) (rule handle_creds)
    with c2 have "creates_for J env ?us1 i (now2, rnd2, req2)"
      by (simp add: creates_for_def)
    from creates_for_step [OF this] obtain m2 where m2: "mid m2 = generateId now2 rnd2"
      and s2: "snd (handle J env now2 rnd2 req2 ?us1) = ?us1[i := (?us1 ! i)\<lparr>movies := movies (?us1 ! i) @ [m2]\<rparr>]"
      by blast
    from i have "length ?us1 = length us" "?us1 ! i = (us ! i)\<lparr>movies := movies (us ! i) @ [m1]\<rparr>"
      by (simp_all add: s1)
    with i m1 m2 show ?thesis
      by (simp add: s2)
  qed
  from seq step twice show ?thesis
    by blast
qed

theorem ids_distinct_when_draws_new_witness:
  "list_all (\<lambda>u. distinct (map mid (movies u))) users \<and> draws_new_ids stub_jwt None users session \<and>
   list_all (\<lambda>u. distinct (map mid (movies u))) (run stub_jwt None users session) \<and>
   map (\<lambda>u. map mid (movies u)) (run stub_jwt None users session) =
     [[Fin 1700000000751], [Fin 1700000000500]] \<and>
   draws_new_id stub_jwt None users2 (1700000000009, 1 / 4, bearer ''h.2.s'' PostMovies JUndefined inception) \<and>
   \<not> draws_new_id stub_jwt None users2 (1700000000000, 1 / 2, bearer ''h.2.s'' PostMovies JUndefined inception) \<and>
   draws_new_id stub_jwt None users2 (1700000000000, 1 / 2, bearer ''h.2.s'' PostMovies JUndefined (JObj [])) \<and>
   creates_for stub_jwt None users 1 (1700000000000, 1 / 2, bearer ''h.2.s'' PostMovies JUndefined inception) \<and>
   creates_for stub_jwt None users 1 (1700000000009, 1 / 4, bearer ''h.2.s'' PostMovies JUndefined inception) \<and>
   map mid (movies (run stub_jwt None users
       [(1700000000000, 1 / 2, bearer ''h.2.s'' PostMovies JUndefined inception),
        (1700000000009, 1 / 4, bearer ''h.2.s'' PostMovies JUndefined inception)] ! 1)) =
     [Fin 1700000000500, Fin 1700000000259]"
proof -
  let ?post = "bearer ''h.2.s'' PostMovies JUndefined inception"
  have u: "\<forall>u\<in>set users. distinct (map mid (movies u))"
    by (simp add: users_def)
  have u2: "\<forall>u\<in>set users2. distinct (map mid (movies u))"
    by (simp add: users2_def m_inception_def m_dune_def)
  have d: "draws_new_ids stub_jwt None users session"
    by code_simp
  have n1: "draws_new_id stub_jwt None users2 (1700000000009, 1 / 4, ?post)"
    by code_simp
  have n2: "\<not> draws_new_id stub_jwt None users2 (1700000000000, 1 / 2, ?post)"
    by code_simp
  have n3: "draws_new_id stub_jwt None users2
      (1700000000000, 1 / 2, bearer ''h.2.s'' PostMovies JUndefined (JObj []))"
    by code_simp
  have c1: "creates_for stub_jwt None users 1 (1700000000000, 1 / 2, ?post)"
    by code_simp
  have c2: "creates_for stub_jwt None users 1 (1700000000009, 1 / 4, ?post)"
    by code_simp
  have g: "generateId 1700000000000 (1 / 2) = Fin 1700000000500"
    "generateId 1700000000009 (1 / 4) = Fin 1700000000259"
    by code_simp+
  have m: "movies (users ! 1) = []"
    by (simp add: users_def)
  note inst = ids_distinct_when_draws_new [of users stub_jwt None session 1700000000009 "1 / 4" ?post
      1 1700000000000 "1 / 2" ?post 1700000000009 "1 / 4" ?post]
  from inst u d have "\<forall>u\<in>set (run stub_jwt None users session). distinct (map mid (movies u))"
    by blast
  then have r: "list_all (\<lambda>u. distinct (map mid (movies u))) (run stub_jwt None users session)"
    by (simp only: list_all_iff)
  from inst c1 c2 have "map mid (movies (run stub_jwt None users
       [(1700000000000, 1 / 2, ?post), (1700000000009, 1 / 4, ?post)] ! 1)) =
     map mid (movies (users ! 1)) @ [generateId 1700000000000 (1 / 2), generateId 1700000000009 (1 / 4)]"
    by blast
  then have t: "map mid (movies (run stub_jwt None users
       [(1700000000000, 1 / 2, ?post), (1700000000009, 1 / 4, ?post)] ! 1)) =
     [Fin 1700000000500, Fin 1700000000259]"
    by (simp only: g m list.map append_Nil)
  from u have u': "list_all (\<lambda>u. distinct (map mid (movies u))) users"
    by (simp only: list_all_iff)
  have s: "map (\<lambda>u. map mid (movies u)) (run stub_jwt None users session) =
      [[Fin 1700000000751], [Fin 1700000000500]]"
    by (simp add: session_result)
  from u' d r s n1 n2 n3 c1 c2 t show ?thesis
    by (intro conjI)
qed

text \<open>
  The same body posted twice, the second time 250 ms later with the random draw 0.25
  after 0.5, yields two movies with the same id.
\<close>

theorem same_id_drawn_twice:
  "\<not> distinct (map mid (movies (snd (create_movie 1700000000250 (1 / 4) inception
       (snd (create_movie 1700000000000 (1 / 2) inception (users ! 1)))))))"
  by code_simp

section \<open>Login and the access guard\<close>

text \<open>
  C1, as amended. Let the table hold the credentials of the initial one, let \<open>u\<close> be one of
  its users and let the login body carry exactly the username and password of \<open>u\<close>. Let the
  token library honour the expiry it is asked for, on its clock of whole seconds: the token
  it signs for \<open>u\<close> at clock reading \<open>t0\<close> is a non-empty string without a space that
  verifies to the signed payload while \<open>Date.now() div 1000\<close> is less than 86400 past
  \<open>t0 div 1000\<close>, and fails as expired from then on. Then \<open>POST /login\<close> answers 200 with
  that token. After any sequence of requests, the token presented as \<open>Bearer\<close> token is
  accepted as the user with the credentials of \<open>u\<close> exactly while the clock in whole
  seconds is less than 86400 past the second of issue, and otherwise every protected route
  answers it with 403. So it is accepted at every time up to 23 h 59 min 59 s after issue
  and rejected once 24 hours have elapsed; within the last second before that, it may
  already be rejected.
\<close>

theorem login_token_roundtrip:
  assumes "map credentials us = map credentials users"
      and "u \<in> set us"
      and "route req = PostLogin"
      and "get_prop (or_empty (body req)) ''username'' = JStr (username u)"
      and "get_prop (or_empty (body req)) ''password'' = JStr (password u)"
      and "tok = jwt_sign J (JObj [(''id'', JNum (Number_int (uid u))), (''username'', JStr (username u))])
                   (SECRET_KEY env) 86400 t0"
      and "tok \<noteq> []" and "CHR '' '' \<notin> set tok"
      and "\<And>t. jwt_verify J tok (SECRET_KEY env) t =
             (if t div 1000 < t0 div 1000 + 86400
              then Decoded (JObj [(''id'', JNum (Number_int (uid u))), (''username'', JStr (username u)),
                                  (''iat'', JNum (Number_int (t0 div 1000))),
                                  (''exp'', JNum (Number_int (t0 div 1000 + 86400)))])
              else Failed TokenExpiredError)"
  shows "handle J env t0 rnd req us = ((200, Token tok), us) \<and>
         (\<forall>es t. accepted_as J env t tok (run J env us es) u \<longleftrightarrow> t div 1000 < t0 div 1000 + 86400) \<and>
         (\<forall>es t. rejected_403 J env t tok (run J env us es) \<longleftrightarrow> t0 div 1000 + 86400 \<le> t div 1000) \<and>
         (\<forall>es t. t \<le> t0 + 86399000 \<longrightarrow> accepted_as J env t tok (run J env us es) u) \<and>
         (\<forall>es t. t0 + 86400000 \<le> t \<longrightarrow> rejected_403 J env t tok (run J env us es))"
proof -
  let ?P = "\<lambda>x. strict_eq (JStr (username x)) (JStr (username u)) \<and>
                strict_eq (JStr (password x)) (JStr (password u))"
  let ?Q = "\<lambda>x. strict_eq (JNum (Number_int (uid x))) (JNum (Number_int (uid u)))"
  let ?decoded = "JObj [(''id'', JNum (Number_int (uid u))), (''username'', JStr (username u)),
                        (''iat'', JNum (Number_int (t0 div 1000))),
                        (''exp'', JNum (Number_int (t0 div 1000 + 86400)))]"
  let ?list = "\<lparr>route = GetMovies, authorization = Some (''Bearer '' @ tok),
                query_status = JUndefined, body = JUndefined\<rparr>"
  from assms(1) obtain a c where us: "us = [a, c]"
    and a: "credentials a = (1, ''Ashwanth'', ''kok123'')"
    and c: "credentials c = (2, ''alice'', ''123'')"
    by (rule two_users)
  from assms(2) us have "u = a \<or> u = c"
    by simp
  with a c have cu: "credentials u = (1, ''Ashwanth'', ''kok123'') \<or> credentials u = (2, ''alice'', ''123'')"
    by blast
  then have ne: "username u \<noteq> []" "password u \<noteq> []"
    by (auto simp: credentials_def)
  have found: "find ?P us = Some u"
    using \<open>u = a \<or> u = c\<close>
  proof
    assume "u = a"
    then show ?thesis by (simp add: us)
  next
    assume "u = c"
    moreover from a c have "username a \<noteq> username c"
      by (simp add: credentials_def)
    ultimately show ?thesis by (simp add: us)
  qed
  have "login J env t0 (body req) us = (200, Token tok)"
    unfolding login_def Let_def assms(4,5) found assms(6) using ne by simp
  with assms(3) have login: "handle J env t0 rnd req us = ((200, Token tok), us)"
    by (simp add: handle_def)
  have bt: "bearer_token (Some (''Bearer '' @ tok)) = Some tok"
    using assms(7,8) by (rule bearer_token_Bearer)
  have id: "get_prop ?decoded ''id'' = JNum (Number_int (uid u))"
    by simp
  have gl: "guarded ?list" "authorization ?list = Some (''Bearer '' @ tok)"
    by (simp_all add: guarded_def)
  have within: "accepted_as J env t tok (run J env us es) u"
    if t: "t div 1000 < t0 div 1000 + 86400" for es t
  proof -
    have "map credentials (run J env us es) = map credentials users"
      using assms(1) by (simp add: run_creds)
    then obtain a' c' where vs: "run J env us es = [a', c']"
      and a': "credentials a' = (1, ''Ashwanth'', ''kok123'')"
      and c': "credentials c' = (2, ''alice'', ''123'')"
      by (rule two_users)
    from cu a' c' have "\<exists>i. find_idx ?Q [a', c'] = Some i \<and> credentials ([a', c'] ! i) = credentials u"
      by (auto simp: credentials_def)
    then obtain i where "find_idx ?Q (run J env us es) = Some i"
      and cr: "credentials (run J env us es ! i) = credentials u"
      unfolding vs by blast
    moreover from t have "jwt_verify J tok (SECRET_KEY env) t = Decoded ?decoded"
      by (simp add: assms(9))
    ultimately have au: "authenticateToken J env t (Some (''Bearer '' @ tok)) (run J env us es) = Inr i"
      unfolding authenticateToken_def bt id by simp
    then have "handle J env t rnd' ?list (run J env us es) =
        ((200, MovieList (movies (run J env us es ! i))), run J env us es)" for rnd'
      by (simp add: handle_def protected_def list_movies_def)
    with au cr show ?thesis
      unfolding accepted_as_def by blast
  qed
  have after: "rejected_403 J env t tok (run J env us es)"
    if "t0 div 1000 + 86400 \<le> t div 1000" for es t
  proof -
    from that have "jwt_verify J tok (SECRET_KEY env) t = Failed TokenExpiredError"
      by (simp add: assms(9))
    then have "authenticateToken J env t (Some (''Bearer '' @ tok)) (run J env us es) =
        Inl (403, Message ''Invalid or expired token'')"
      unfolding authenticateToken_def bt by simp
    then show ?thesis
      unfolding rejected_403_def by (auto intro: guard_answers)
  qed
  have excl: "\<not> (accepted_as J env t tok vs u \<and> rejected_403 J env t tok vs)" for t vs
    unfolding accepted_as_def rejected_403_def using gl by fastforce
  have acc: "accepted_as J env t tok (run J env us es) u \<longleftrightarrow> t div 1000 < t0 div 1000 + 86400" for es t
    using within [of t es] after [of t es] excl [of t "run J env us es"] by (meson not_le_imp_less)
  have rej: "rejected_403 J env t tok (run J env us es) \<longleftrightarrow> t0 div 1000 + 86400 \<le> t div 1000" for es t
    using within [of t es] after [of t es] excl [of t "run J env us es"] by (meson not_le_imp_less)
  have early: "t div 1000 < t0 div 1000 + 86400" if "t \<le> t0 + 86399000" for t
    using that by linarith
  have late: "t0 div 1000 + 86400 \<le> t div 1000" if "t0 + 86400000 \<le> t" for t
    using that by linarith
  from login acc rej within [OF early] after [OF late] show ?thesis
    by blast
qed

theorem login_token_roundtrip_witness:
  "users ! 1 \<in> set users \<and>
   jwt_sign stub_jwt
     (JObj [(''id'', JNum (Number_int (uid (users ! 1)))), (''username'', JStr (username (users ! 1)))])
     (SECRET_KEY None) 86400 1700000000000 = ''h.2.s'' \<and>
   handle stub_jwt None 1700000000000 0 login_alice users = ((200, Token ''h.2.s''), users) \<and>
   accepted_as stub_jwt None 1700086399999 ''h.2.s'' (run stub_jwt None users session) (users ! 1) \<and>
   authenticateToken stub_jwt None 1700086399999 (Some ''Bearer h.2.s'')
     (run stub_jwt None users session) = Inr 1 \<and>
   rejected_403 stub_jwt None 1700086400000 ''h.2.s'' (run stub_jwt None users session) \<and>
   handle stub_jwt None 1700086400000 0 (bearer ''h.2.s'' GetMovies JUndefined JUndefined)
     (run stub_jwt None users session) =
     ((403, Message ''Invalid or expired token''), run stub_jwt None users session)"
proof -
  let ?u = "users ! 1"
  have h1: "map credentials users = map credentials users"
    by simp
  have h2: "?u \<in> set users"
    by (simp add: users_def)
  have h3: "route login_alice = PostLogin"
    by (simp add: login_alice_def)
  have h4: "get_prop (or_empty (body login_alice)) ''username'' = JStr (username ?u)"
    by (simp add: users_def or_empty_def login_alice_def)
  have h5: "get_prop (or_empty (body login_alice)) ''password'' = JStr (password ?u)"
    by (simp add: users_def or_empty_def login_alice_def)
  have h6: "''h.2.s'' = jwt_sign stub_jwt
      (JObj [(''id'', JNum (Number_int (uid ?u))), (''username'', JStr (username ?u))])
      (SECRET_KEY None) 86400 1700000000000"
    by (simp add: users_def stub_jwt_def Number_int_def)
  have h7: "''h.2.s'' \<noteq> []"
    by simp
  have h8: "CHR '' '' \<notin> set ''h.2.s''"
    by simp
  have h9: "jwt_verify stub_jwt ''h.2.s'' (SECRET_KEY None) t =
      (if t div 1000 < 1700000000000 div 1000 + 86400
       then Decoded (JObj [(''id'', JNum (Number_int (uid ?u))), (''username'', JStr (username ?u)),
                           (''iat'', JNum (Number_int (1700000000000 div 1000))),
                           (''exp'', JNum (Number_int (1700000000000 div 1000 + 86400)))])
       else Failed TokenExpiredError)" for t
    by (simp add: users_def stub_jwt_def SECRET_KEY_def Number_int_def)
  note round = login_token_roundtrip [OF h1 h2 h3 h4 h5 h6 h7 h8 h9, where rnd = 0]
  from round have l: "handle stub_jwt None 1700000000000 0 login_alice users = ((200, Token ''h.2.s''), users)"
    by (rule conjunct1)
  have w0: "(1700086399999::int) div 1000 < 1700000000000 div 1000 + 86400"
    by simp
  have w1: "(1700000000000::int) div 1000 + 86400 \<le> 1700086400000 div 1000"
    by simp
  from round w0 have acc: "accepted_as stub_jwt None 1700086399999 ''h.2.s'' (run stub_jwt None users session) ?u"
    by blast
  from round w1 have rej: "rejected_403 stub_jwt None 1700086400000 ''h.2.s'' (run stub_jwt None users session)"
    by blast
  have w: "authenticateToken stub_jwt None 1700086399999 (Some ''Bearer h.2.s'')
      (run stub_jwt None users session) = Inr 1"
    by code_simp
  have "guarded (bearer ''h.2.s'' GetMovies JUndefined JUndefined)"
    "authorization (bearer ''h.2.s'' GetMovies JUndefined JUndefined) = Some (''Bearer '' @ ''h.2.s'')"
    by (simp_all add: guarded_def bearer_def)
  with rej have r: "handle stub_jwt None 1700086400000 0 (bearer ''h.2.s'' GetMovies JUndefined JUndefined)
     (run stub_jwt None users session) =
     ((403, Message ''Invalid or expired token''), run stub_jwt None users session)"
    unfolding rejected_403_def by blast
  from h2 h6 [symmetric] l acc w rej r show ?thesis
    by (intro conjI)
qed

text \<open>
  A login at clock reading 1700000000999 and a presentation at 1700086400000, which is
  86399.001 s later and so within 24 hours: the token has expired.
\<close>

theorem token_expires_within_24_hours:
  "handle stub_jwt None 1700000000999 0 login_alice users = ((200, Token ''h.2.s''), users) \<and>
   (1700086400000 :: int) - 1700000000999 < 24 * 60 * 60 * 1000 \<and>
   handle stub_jwt None 1700086400000 0 (bearer ''h.2.s'' GetMovies JUndefined JUndefined) users =
     ((403, Message ''Invalid or expired token''), users)"
  by (simp add: run_defs)

section \<open>What the guard answers\<close>

text \<open>
  On every protected route the guard answers before the handler runs, leaving the table
  unchanged: 401 "Missing token" when there is no \<open>Authorization\<close> header or the header
  yields no token; 403 "Invalid or expired token" whenever the token library calls back
  with an error for the token under the current secret; 401 "User not found" when the
  token library calls back with a payload other than \<open>null\<close> and \<open>undefined\<close> whose \<open>id\<close>
  equals the id of no user. When the token library throws, or hands over \<open>null\<close> or
  \<open>undefined\<close>, nothing catches the exception and the answer is 500.
\<close>

lemma guard_outcomes:
  assumes "guarded req"
  shows "(authorization req = None \<or> bearer_token (authorization req) = None \<longrightarrow>
            handle J env now rnd req us = ((401, Message ''Missing token''), us)) \<and>
         (\<forall>tok e. bearer_token (authorization req) = Some tok \<and>
                  jwt_verify J tok (SECRET_KEY env) now = Failed e \<longrightarrow>
            handle J env now rnd req us = ((403, Message ''Invalid or expired token''), us)) \<and>
         (\<forall>tok d. bearer_token (authorization req) = Some tok \<and>
                  jwt_verify J tok (SECRET_KEY env) now = Decoded d \<and> d \<noteq> JUndefined \<and> d \<noteq> JNull \<and>
                  (\<forall>u\<in>set us. \<not> strict_eq (JNum (Number_int (uid u))) (get_prop d ''id'')) \<longrightarrow>
            handle J env now rnd req us = ((401, Message ''User not found''), us)) \<and>
         (\<forall>tok. bearer_token (authorization req) = Some tok \<and>
                jwt_verify J tok (SECRET_KEY env) now \<in> {Throws, Decoded JUndefined, Decoded JNull} \<longrightarrow>
            handle J env now rnd req us = ((500, ServerError), us))"
proof -
  have none: "bearer_token None = None"
    by (simp add: bearer_token_def)
  note guard = guard_answers [OF assms]
  have "authenticateToken J env now (authorization req) us = Inl (401, Message ''Missing token'')"
    if "authorization req = None \<or> bearer_token (authorization req) = None"
    using that none by (auto simp: authenticateToken_def)
  moreover have "authenticateToken J env now (authorization req) us =
      Inl (403, Message ''Invalid or expired token'')"
    if "bearer_token (authorization req) = Some tok" "jwt_verify J tok (SECRET_KEY env) now = Failed e"
    for tok e
    using that by (simp add: authenticateToken_def)
  moreover have "authenticateToken J env now (authorization req) us = Inl (401, Message ''User not found'')"
    if "bearer_token (authorization req) = Some tok" "jwt_verify J tok (SECRET_KEY env) now = Decoded d"
      "d \<noteq> JUndefined" "d \<noteq> JNull"
      "\<forall>u\<in>set us. \<not> strict_eq (JNum (Number_int (uid u))) (get_prop d ''id'')"
    for tok d
  proof -
    from that(5) have "find_idx (\<lambda>u. strict_eq (JNum (Number_int (uid u))) (get_prop d ''id'')) us = None"
      by (simp only: find_idx_None_iff)
    with that(1-4) show ?thesis
      by (simp add: authenticateToken_def del: strict_eq.simps)
  qed
  moreover have "authenticateToken J env now (authorization req) us = Inl (500, ServerError)"
    if "bearer_token (authorization req) = Some tok"
      "jwt_verify J tok (SECRET_KEY env) now \<in> {Throws, Decoded JUndefined, Decoded JNull}"
    for tok
    using that by (auto simp: authenticateToken_def)
  ultimately show ?thesis
    using guard by blast
qed

text \<open>
  C2. A request to a protected route with a token that is signed under the secret in force
  and whose payload is \<open>null\<close>: the token library throws, and the request is answered 500,
  not 403.
\<close>

theorem unhandled_throw_answers_500:
  "handle stub_jwt None 1700000000009 0 (bearer ''h.null.s'' GetMovies JUndefined JUndefined) users2 =
     ((500, ServerError), users2)"
  by (simp add: run_defs)

end
